theory Spec2Isabelle
  imports Complex_Main "HOL-Library.Word" "HOL-Library.Signed_Division"
begin

unbundle bit_operations_syntax

section \<open>Go values shared by all components\<close>

text \<open>
  Go's \<open>byte\<close> and \<open>int16\<close> are machine words; \<open>sint\<close> reads an \<open>int16\<close> as the signed
  value the Go program sees. Go's \<open>int\<close> holds frame coordinates, which come from the
  camera as 32-bit values, so the 64-bit arithmetic of the detector never wraps and is
  modelled on \<open>int\<close>, with Go's truncating division written out.
\<close>

type_synonym byte = "8 word"
type_synonym int16 = "16 word"

text \<open>A run-time panic of the Go program.\<close>

datatype go_panic =
    NilPointerDereference
  | IntegerDivideByZero
  | CloseOfClosedChannel
  | NonPositiveTickerInterval

text \<open>A non-nil \<open>error\<close> value; the only source of errors is the serial transport.\<close>

datatype go_error = WriteError

section \<open>Motor protocol driver (\<open>lib.Roomba\<close>)\<close>

text \<open>
  The serial port is an external collaborator. Its model keeps the buffers handed to
  \<open>Write\<close>, oldest first, and lets the environment decide which calls report an error:
  \<open>write_fails p n\<close> tells whether the call made after \<open>n\<close> earlier ones fails.
\<close>

record serial_port =
  writes :: "byte list list"
  write_fails :: "nat \<Rightarrow> bool"

definition port_Write :: "serial_port \<Rightarrow> byte list \<Rightarrow> go_error option \<times> serial_port" where
  "port_Write p buf =
     ((if write_fails p (length (writes p)) then Some WriteError else None),
      p\<lparr>writes := writes p @ [buf]\<rparr>)"

record RoombaCommands =
  CmdStart :: byte
  CmdControl :: byte
  CmdSafe :: byte
  CmdFull :: byte
  CmdPower :: byte
  CmdSpot :: byte
  CmdClean :: byte
  CmdMax :: byte
  CmdDrive :: byte
  CmdMotors :: byte
  CmdLeds :: byte
  CmdDock :: byte

text \<open>\<open>port\<close> is a Go interface value: \<open>None\<close> is nil, the state before \<open>Connect\<close>.\<close>

record Roomba =
  port :: "serial_port option"
  portName :: string
  baudRate :: int
  Cmds :: RoombaCommands

definition StraightRadius :: int16 where
  "StraightRadius = 32767"

definition NewRoomba :: "string \<Rightarrow> int \<Rightarrow> Roomba" where
  "NewRoomba pn br =
     \<lparr>port = None, portName = pn, baudRate = br,
      Cmds = \<lparr>CmdStart = 128, CmdControl = 130, CmdSafe = 131, CmdFull = 132,
              CmdPower = 133, CmdSpot = 134, CmdClean = 135, CmdMax = 136,
              CmdDrive = 137, CmdMotors = 138, CmdLeds = 139, CmdDock = 143\<rparr>\<rparr>"

text \<open>
  The five-byte slice built by \<open>Drive\<close>. \<open>velocity >> 8\<close> on an \<open>int16\<close> is an
  arithmetic shift, and the conversion \<open>byte(...)\<close> keeps the low eight bits.
\<close>

definition Drive_command :: "Roomba \<Rightarrow> int16 \<Rightarrow> int16 \<Rightarrow> byte list" where
  "Drive_command r velocity radius =
     [CmdDrive (Cmds r),
      ucast (signed_drop_bit 8 velocity),
      ucast (velocity AND 0xFF),
      ucast (signed_drop_bit 8 radius),
      ucast (radius AND 0xFF)]"

text \<open>
  \<open>Drive\<close> hands the slice to the port in one \<open>Write\<close> call and returns the error of
  that call. Calling \<open>Write\<close> on a nil port panics.
\<close>

definition Roomba_Drive ::
  "Roomba \<Rightarrow> int16 \<Rightarrow> int16 \<Rightarrow> go_panic + (go_error option \<times> Roomba)" where
  "Roomba_Drive r velocity radius =
     (case port r of
        None \<Rightarrow> Inl NilPointerDereference
      | Some p \<Rightarrow>
          (case port_Write p (Drive_command r velocity radius) of
             (err, p') \<Rightarrow> Inr (err, r\<lparr>port := Some p'\<rparr>)))"

definition Roomba_Stop :: "Roomba \<Rightarrow> go_panic + (go_error option \<times> Roomba)" where
  "Roomba_Stop r = Roomba_Drive r 0 0"

text \<open>A connected Roomba: \<open>Connect\<close> has stored an open port whose log is empty.\<close>

definition fresh_port :: serial_port where
  "fresh_port = \<lparr>writes = [], write_fails = (\<lambda>_. False)\<rparr>"

definition connected_Roomba :: Roomba where
  "connected_Roomba = (NewRoomba ''/dev/ttyUSB0'' 115200)\<lparr>port := Some fresh_port\<rparr>"

section \<open>Color detector (\<open>lib.ColorDetector\<close>)\<close>

datatype LinePosition = LineLeft | LineRight | LineCentered | LineNotFound

text \<open>
  \<open>image.Rectangle\<close> of the Go standard library, with the two corner points written as
  four coordinates (\<open>Min_X r\<close> is \<open>r.Min.X\<close>). \<open>Rect\<close> swaps coordinates given out of
  order; a rectangle overlaps another when both are non-empty and they intersect.
\<close>

record Rectangle =
  Min_X :: int
  Min_Y :: int
  Max_X :: int
  Max_Y :: int

definition Rect :: "int \<Rightarrow> int \<Rightarrow> int \<Rightarrow> int \<Rightarrow> Rectangle" where
  "Rect x0 y0 x1 y1 =
     \<lparr>Min_X = (if x0 > x1 then x1 else x0), Min_Y = (if y0 > y1 then y1 else y0),
      Max_X = (if x0 > x1 then x0 else x1), Max_Y = (if y0 > y1 then y0 else y1)\<rparr>"

definition Dx :: "Rectangle \<Rightarrow> int" where
  "Dx r = Max_X r - Min_X r"

definition Empty :: "Rectangle \<Rightarrow> bool" where
  "Empty r \<longleftrightarrow> Min_X r \<ge> Max_X r \<or> Min_Y r \<ge> Max_Y r"

definition Overlaps :: "Rectangle \<Rightarrow> Rectangle \<Rightarrow> bool" where
  "Overlaps r s \<longleftrightarrow>
     \<not> Empty r \<and> \<not> Empty s \<and>
     Min_X r < Max_X s \<and> Min_X s < Max_X r \<and>
     Min_Y r < Max_Y s \<and> Min_Y s < Max_Y r"

text \<open>
  \<open>gocv.Scalar\<close> holds four \<open>float64\<close> values. The detector only compares \<open>float64\<close>
  values (contour areas against each other and against the threshold) and never computes
  with them, so finite values are modelled as \<open>real\<close>.
\<close>

type_synonym Scalar = "real \<times> real \<times> real \<times> real"

record ColorDetectionConfig =
  LowerHSVBound :: Scalar
  UpperHSVBound :: Scalar
  CenterWidth :: int
  MinContourArea :: real
  ShowWindow :: bool
  WindowName :: string
  CameraID :: int
  MorphKernelSize :: int

definition DefaultColorDetectionConfig :: ColorDetectionConfig where
  "DefaultColorDetectionConfig =
     \<lparr>LowerHSVBound = (35, 100, 100, 0), UpperHSVBound = (50, 255, 255, 0),
      CenterWidth = 12, MinContourArea = 300, ShowWindow = False,
      WindowName = ''Line Tracking'', CameraID = 0, MorphKernelSize = 5\<rparr>"

text \<open>
  Blur, colour conversion, thresholding, erosion, dilation and contour extraction belong
  to the vision library. A frame is therefore given by what the loop reads from them: its
  size and, for each external contour found in the mask, the value of \<open>gocv.ContourArea\<close>
  and of \<open>gocv.BoundingRect\<close>.
\<close>

record contour =
  area :: real
  bounding :: Rectangle

record frame =
  Cols :: int
  Rows :: int
  contours :: "contour list"

text \<open>
  \<open>cd_stopChan_closed\<close> is the state of the channel \<open>stopChan\<close>: nothing is ever sent on
  it, it is made open by the constructor and can only be closed. \<open>cd_lastFrame\<close> is
  \<open>None\<close> for an empty matrix. The window and the annotated display frame are left out.
\<close>

record ColorDetector =
  cd_Config :: ColorDetectionConfig
  cd_webcam_open :: bool
  cd_centerRect :: Rectangle
  cd_position :: LinePosition
  cd_lastFrame :: "frame option"
  cd_running :: bool
  cd_stopChan_closed :: bool

text \<open>\<open>camera_opens\<close> tells whether \<open>gocv.OpenVideoCapture\<close> succeeds.\<close>

datatype open_error = CameraOpenError

definition NewColorDetector :: "ColorDetectionConfig \<Rightarrow> bool \<Rightarrow> open_error + ColorDetector" where
  "NewColorDetector config camera_opens =
     (if \<not> camera_opens then Inl CameraOpenError
      else Inr \<lparr>cd_Config = config, cd_webcam_open = True,
                cd_centerRect = \<lparr>Min_X = 0, Min_Y = 0, Max_X = 0, Max_Y = 0\<rparr>,
                cd_position = LineNotFound, cd_lastFrame = None,
                cd_running = False, cd_stopChan_closed = False\<rparr>)"

text \<open>
  \<open>Start\<close> returns the detector and whether it launched a \<open>detectionLoop\<close> goroutine.
\<close>

definition ColorDetector_Start :: "ColorDetector \<Rightarrow> ColorDetector \<times> bool" where
  "ColorDetector_Start cd =
     (if cd_running cd then (cd, False) else (cd\<lparr>cd_running := True\<rparr>, True))"

text \<open>Closing a channel that is already closed panics.\<close>

definition ColorDetector_Stop :: "ColorDetector \<Rightarrow> go_panic + ColorDetector" where
  "ColorDetector_Stop cd =
     (if \<not> cd_running cd then Inr cd
      else if cd_stopChan_closed cd then Inl CloseOfClosedChannel
      else Inr (cd\<lparr>cd_running := False, cd_stopChan_closed := True\<rparr>))"

definition ColorDetector_Close :: "ColorDetector \<Rightarrow> go_panic + ColorDetector" where
  "ColorDetector_Close cd =
     (case ColorDetector_Stop cd of
        Inl p \<Rightarrow> Inl p
      | Inr cd' \<Rightarrow> Inr (cd'\<lparr>cd_webcam_open := False, cd_lastFrame := None\<rparr>))"

definition ColorDetector_GetPosition :: "ColorDetector \<Rightarrow> LinePosition" where
  "ColorDetector_GetPosition cd = cd_position cd"

text \<open>
  The search for the largest contour: the \<open>for\<close> loop over the contours from index \<open>i\<close>
  on, with the variables \<open>maxArea\<close> and \<open>largestIdx\<close>.
\<close>

fun largest_contour :: "contour list \<Rightarrow> int \<Rightarrow> real \<Rightarrow> int \<Rightarrow> real \<times> int" where
  "largest_contour [] i maxArea largestIdx = (maxArea, largestIdx)"
| "largest_contour (c # cs) i maxArea largestIdx =
     (if area c > maxArea then largest_contour cs (i + 1) (area c) i
      else largest_contour cs (i + 1) maxArea largestIdx)"

text \<open>
  The classification of one frame against the centre rectangle; \<open>None\<close> stands for
  \<open>foundColor\<close> staying false.
\<close>

definition find_color :: "ColorDetectionConfig \<Rightarrow> Rectangle \<Rightarrow> contour list \<Rightarrow> LinePosition option" where
  "find_color config centerRect cs =
     (if length cs > 0 then
        (case largest_contour cs 0 0 (- 1) of
           (maxArea, largestIdx) \<Rightarrow>
             if maxArea > MinContourArea config \<and> largestIdx \<ge> 0 then
               (let rect = bounding (cs ! nat largestIdx);
                    centerX = Min_X rect + (Dx rect sdiv 2)
                in if Overlaps rect centerRect then Some LineCentered
                   else if centerX < Min_X centerRect then Some LineLeft
                   else Some LineRight)
             else None)
      else None)"

text \<open>
  One pass through the \<open>default\<close> branch of the loop for a frame that was read. Go's
  integer division truncates (\<open>sdiv\<close>) and panics on a zero divisor. The centre rectangle
  is stored before the frame is processed, the position and the frame after.
\<close>

definition detection_cycle :: "ColorDetector \<Rightarrow> frame \<Rightarrow> go_panic + ColorDetector" where
  "detection_cycle cd img =
     (let width = Cols img; height = Rows img
      in if CenterWidth (cd_Config cd) = 0 then Inl IntegerDivideByZero
         else
           (let centerWidth = width sdiv CenterWidth (cd_Config cd);
                centerRect = Rect ((width sdiv 2) - (centerWidth sdiv 2)) 0
                                  ((width sdiv 2) + (centerWidth sdiv 2)) height;
                position = (case find_color (cd_Config cd) centerRect (contours img) of
                              Some p \<Rightarrow> p
                            | None \<Rightarrow> LineNotFound)
            in Inr (cd\<lparr>cd_centerRect := centerRect, cd_position := position,
                       cd_lastFrame := Some img\<rparr>)))"

text \<open>
  What one iteration of a loop does: the goroutine returns, goes on to the next
  iteration, or waits in its \<open>select\<close>.
\<close>

datatype 'a loop_step = Returns 'a | Continues 'a | Blocks 'a

text \<open>
  One iteration of \<open>detectionLoop\<close>. The \<open>select\<close> has a \<open>default\<close> branch, so it takes
  the stop case exactly when the channel is closed. \<open>rd\<close> is what the camera delivers:
  \<open>None\<close> when the read fails or the frame is empty, and the loop then only sleeps.
\<close>

definition detectionLoop_iteration ::
  "ColorDetector \<Rightarrow> frame option \<Rightarrow> go_panic + ColorDetector loop_step" where
  "detectionLoop_iteration cd rd =
     (if cd_stopChan_closed cd then Inr (Returns cd)
      else (case rd of
              None \<Rightarrow> Inr (Continues cd)
            | Some img \<Rightarrow>
                (case detection_cycle cd img of
                   Inl p \<Rightarrow> Inl p
                 | Inr cd' \<Rightarrow> Inr (Continues cd'))))"

text \<open>
  A pass of \<open>detectionLoop\<close> is not one step for the other goroutines: between its
  \<open>select\<close> and the moment it publishes a position the goroutine reads the camera,
  stores the centre rectangle and classifies the frame, and \<open>Stop\<close> may return in
  between. A \<open>loop_place\<close> tells where a goroutine of \<open>detectionLoop\<close> stands: at its
  \<open>select\<close>, in the \<open>default\<close> branch before the read, holding a frame, having stored the
  centre rectangle for it, having classified it, or returned.
\<close>

datatype loop_place =
    At_select
  | Reading
  | Has_frame frame
  | Has_zone frame
  | Has_position frame LinePosition
  | Returned

text \<open>
  The next step of a goroutine of \<open>detectionLoop\<close> on the detector as it is at that
  moment; \<open>rd\<close> is what the camera delivers if the step is the read. The classification
  reads the centre rectangle back from the detector.
\<close>

definition detectionLoop_step ::
  "ColorDetector \<Rightarrow> loop_place \<Rightarrow> frame option \<Rightarrow> go_panic + ColorDetector \<times> loop_place" where
  "detectionLoop_step cd place rd =
     (case place of
        At_select \<Rightarrow> Inr (cd, if cd_stopChan_closed cd then Returned else Reading)
      | Reading \<Rightarrow>
          (case rd of
             None \<Rightarrow> Inr (cd, At_select)
           | Some img \<Rightarrow> Inr (cd, Has_frame img))
      | Has_frame img \<Rightarrow>
          (let width = Cols img; height = Rows img
           in if CenterWidth (cd_Config cd) = 0 then Inl IntegerDivideByZero
              else
                (let centerWidth = width sdiv CenterWidth (cd_Config cd)
                 in Inr (cd\<lparr>cd_centerRect :=
                              Rect ((width sdiv 2) - (centerWidth sdiv 2)) 0
                                   ((width sdiv 2) + (centerWidth sdiv 2)) height\<rparr>,
                         Has_zone img)))
      | Has_zone img \<Rightarrow>
          Inr (cd, Has_position img
                     (case find_color (cd_Config cd) (cd_centerRect cd) (contours img) of
                        Some p \<Rightarrow> p
                      | None \<Rightarrow> LineNotFound))
      | Has_position img position \<Rightarrow>
          Inr (cd\<lparr>cd_position := position, cd_lastFrame := Some img\<rparr>, At_select)
      | Returned \<Rightarrow> Inr (cd, Returned))"

text \<open>A goroutine that is within a detection cycle: past its \<open>select\<close> and not yet back.\<close>

definition in_flight :: "loop_place \<Rightarrow> bool" where
  "in_flight place = (case place of At_select \<Rightarrow> False | Returned \<Rightarrow> False | _ \<Rightarrow> True)"

text \<open>
  What can happen to a detector and the loop goroutines launched on it so far: calls of
  its methods from other goroutines, and single steps of one of the loop goroutines, in
  any order. \<open>Start\<close> adds a goroutine at its \<open>select\<close> when it launches one.
\<close>

datatype detector_event =
    Call_Start
  | Call_Stop
  | Call_Close
  | Loop_step nat "frame option"

definition detector_step ::
  "ColorDetector \<times> loop_place list \<Rightarrow> detector_event \<Rightarrow>
   go_panic + ColorDetector \<times> loop_place list" where
  "detector_step sys ev =
     (case sys of (cd, loops) \<Rightarrow>
        (case ev of
           Call_Start \<Rightarrow>
             (case ColorDetector_Start cd of
                (cd', launched) \<Rightarrow> Inr (cd', if launched then loops @ [At_select] else loops))
         | Call_Stop \<Rightarrow>
             (case ColorDetector_Stop cd of
                Inl p \<Rightarrow> Inl p
              | Inr cd' \<Rightarrow> Inr (cd', loops))
         | Call_Close \<Rightarrow>
             (case ColorDetector_Close cd of
                Inl p \<Rightarrow> Inl p
              | Inr cd' \<Rightarrow> Inr (cd', loops))
         | Loop_step g rd \<Rightarrow>
             if g < length loops then
               (case detectionLoop_step cd (loops ! g) rd of
                  Inl p \<Rightarrow> Inl p
                | Inr (cd', place) \<Rightarrow> Inr (cd', loops[g := place]))
             else Inr (cd, loops)))"

text \<open>A sequence of events, stopped by the first panic.\<close>

fun run_events :: "('s \<Rightarrow> 'e \<Rightarrow> go_panic + 's) \<Rightarrow> 's \<Rightarrow> 'e list \<Rightarrow> go_panic + 's" where
  "run_events step s [] = Inr s"
| "run_events step s (ev # evs) =
     (case step s ev of
        Inl p \<Rightarrow> Inl p
      | Inr s' \<Rightarrow> run_events step s' evs)"

definition detector_run ::
  "ColorDetector \<times> loop_place list \<Rightarrow> detector_event list \<Rightarrow>
   go_panic + ColorDetector \<times> loop_place list" where
  "detector_run sys evs = run_events detector_step sys evs"

section \<open>Time, tickers and \<open>select\<close>\<close>

text \<open>
  A \<open>time.Time\<close> is its distance in nanoseconds from the zero time, a \<open>time.Duration\<close>
  a number of nanoseconds. \<open>Sub\<close> saturates at the largest and smallest duration.
  Every control tick receives the current time from the environment.
\<close>

type_synonym Time = int
type_synonym Duration = int

definition maxDuration :: Duration where
  "maxDuration = 2 ^ 63 - 1"

definition minDuration :: Duration where
  "minDuration = - (2 ^ 63)"

definition time_Sub :: "Time \<Rightarrow> Time \<Rightarrow> Duration" where
  "time_Sub t u =
     (let d = t - u
      in if d > maxDuration then maxDuration else if d < minDuration then minDuration else d)"

definition time_Since :: "Time \<Rightarrow> Time \<Rightarrow> Duration" where
  "time_Since now t = time_Sub now t"

definition IsZero :: "Time \<Rightarrow> bool" where
  "IsZero t \<longleftrightarrow> t = 0"

definition Millisecond :: Duration where
  "Millisecond = 1000000"

definition Second :: Duration where
  "Second = 1000000000"

text \<open>\<open>time.NewTicker\<close> panics unless the interval is positive.\<close>

definition NewTicker :: "Duration \<Rightarrow> go_panic + unit" where
  "NewTicker d = (if d \<le> 0 then Inl NonPositiveTickerInterval else Inr ())"

text \<open>
  The control loops wait in a \<open>select\<close> on the stop channel and on the ticker. A closed
  channel is always ready. When both cases are ready the Go runtime picks one of them at
  random: \<open>choice\<close> is that pick. When none is ready the goroutine waits.
\<close>

datatype select_case = Case_stop | Case_tick

definition select_case_of :: "bool \<Rightarrow> bool \<Rightarrow> select_case \<Rightarrow> select_case option" where
  "select_case_of stop_closed ticker_fired choice =
     (if stop_closed \<and> ticker_fired then Some choice
      else if stop_closed then Some Case_stop
      else if ticker_fired then Some Case_tick
      else None)"

text \<open>
  What the environment contributes to one pass through a control loop's \<open>select\<close>:
  whether the ticker has fired, the runtime's pick, and the clock.
\<close>

record tick =
  tick_fired :: bool
  tick_choice :: select_case
  tick_now :: Time

text \<open>
  A pass through \<open>select\<close> at which the ticker has fired and the runtime picks the tick.
  With the stop channel closed every other pass takes the stop case.
\<close>

definition picks_tick :: "tick \<Rightarrow> bool" where
  "picks_tick inp \<longleftrightarrow> tick_fired inp \<and> tick_choice inp = Case_tick"

text \<open>
  A loop run over successive inputs while no other goroutine touches the object. After
  \<open>Blocks\<close> the same \<open>select\<close> is evaluated again with the next input.
\<close>

fun run_loop :: "('s \<Rightarrow> 'i \<Rightarrow> go_panic + 's loop_step) \<Rightarrow> 's \<Rightarrow> 'i list \<Rightarrow> go_panic + 's loop_step" where
  "run_loop iteration s [] = Inr (Continues s)"
| "run_loop iteration s (i # rest) =
     (case iteration s i of
        Inl p \<Rightarrow> Inl p
      | Inr (Returns s') \<Rightarrow> Inr (Returns s')
      | Inr (Continues s') \<Rightarrow> run_loop iteration s' rest
      | Inr (Blocks s') \<Rightarrow> run_loop iteration s' rest)"

text \<open>\<open>detectionLoop\<close> run over successive camera reads.\<close>

definition detectionLoop :: "ColorDetector \<Rightarrow> frame option list \<Rightarrow> go_panic + ColorDetector loop_step" where
  "detectionLoop cd rds = run_loop detectionLoop_iteration cd rds"

text \<open>
  The controllers hold a \<open>*Roomba\<close>, which may be nil. A method call through a nil
  pointer panics when \<open>Drive\<close> reads the opcode table.
\<close>

definition ptr_Drive ::
  "Roomba option \<Rightarrow> int16 \<Rightarrow> int16 \<Rightarrow> go_panic + (go_error option \<times> Roomba option)" where
  "ptr_Drive rp velocity radius =
     (case rp of
        None \<Rightarrow> Inl NilPointerDereference
      | Some r \<Rightarrow>
          (case Roomba_Drive r velocity radius of
             Inl p \<Rightarrow> Inl p
           | Inr (err, r') \<Rightarrow> Inr (err, Some r')))"

definition ptr_Stop :: "Roomba option \<Rightarrow> go_panic + (go_error option \<times> Roomba option)" where
  "ptr_Stop rp =
     (case rp of
        None \<Rightarrow> Inl NilPointerDereference
      | Some r \<Rightarrow>
          (case Roomba_Stop r of
             Inl p \<Rightarrow> Inl p
           | Inr (err, r') \<Rightarrow> Inr (err, Some r')))"

text \<open>The buffers handed to the transport so far, through a \<open>*Roomba\<close>.\<close>

definition sent :: "Roomba option \<Rightarrow> byte list list" where
  "sent rp = (case rp of None \<Rightarrow> [] | Some r \<Rightarrow> (case port r of None \<Rightarrow> [] | Some p \<Rightarrow> writes p))"

text \<open>A \<open>*Roomba\<close> that is not nil and whose port has been opened.\<close>

definition is_connected :: "Roomba option \<Rightarrow> bool" where
  "is_connected rp = (case rp of None \<Rightarrow> False | Some r \<Rightarrow> port r \<noteq> None)"

text \<open>
  What can happen to a controller: calls of its methods, and passes of a control loop
  goroutine through its \<open>select\<close>, in any order.
\<close>

datatype controller_event =
    Ctl_Start
  | Ctl_Stop
  | Ctl_Close
  | Ctl_select tick

text \<open>The object after an iteration, whichever way the loop went on.\<close>

definition after_step :: "go_panic + 's loop_step \<Rightarrow> go_panic + 's" where
  "after_step res =
     (case res of
        Inl p \<Rightarrow> Inl p
      | Inr (Returns s) \<Rightarrow> Inr s
      | Inr (Continues s) \<Rightarrow> Inr s
      | Inr (Blocks s) \<Rightarrow> Inr s)"

section \<open>Seek controller (\<open>ColorSeeker\<close>)\<close>

record ColorSeekConfig =
  SpinSpeed :: int16
  ForwardSpeed :: int16
  AdjustmentSpeed :: int16
  UpdateInterval :: Duration
  LostColorTimeout :: Duration
  DetectorConfig :: ColorDetectionConfig

definition DefaultColorSeekConfig :: ColorSeekConfig where
  "DefaultColorSeekConfig =
     \<lparr>SpinSpeed = 100, ForwardSpeed = 150, AdjustmentSpeed = 80,
      UpdateInterval = 50 * Millisecond, LostColorTimeout = 2 * Second,
      DetectorConfig = DefaultColorDetectionConfig\<rparr>"

datatype ColorSeekState = Spinning | Centering | Following | Stopped

text \<open>
  The seeker owns its detector and shares the Roomba with its caller; both are kept in
  the record. A drive error is only logged, so it does not appear in the results.
\<close>

record ColorSeeker =
  cs_config :: ColorSeekConfig
  cs_colorDetector :: ColorDetector
  cs_roomba :: "Roomba option"
  cs_running :: bool
  cs_stopChan_closed :: bool
  cs_state :: ColorSeekState
  cs_lastColorSeen :: Time

definition NewColorSeeker ::
  "ColorSeekConfig \<Rightarrow> Roomba option \<Rightarrow> bool \<Rightarrow> open_error + ColorSeeker" where
  "NewColorSeeker config roomba camera_opens =
     (case NewColorDetector (DetectorConfig config) camera_opens of
        Inl e \<Rightarrow> Inl e
      | Inr detector \<Rightarrow>
          Inr \<lparr>cs_config = config, cs_colorDetector = detector, cs_roomba = roomba,
               cs_running = False, cs_stopChan_closed = False, cs_state = Stopped,
               cs_lastColorSeen = 0\<rparr>)"

text \<open>\<open>Start\<close> returns the seeker and whether it launched a \<open>controlLoop\<close> goroutine.\<close>

definition ColorSeeker_Start :: "ColorSeeker \<Rightarrow> go_panic + (ColorSeeker \<times> bool)" where
  "ColorSeeker_Start cs =
     (if cs_running cs then Inr (cs, False)
      else
        (let cs1 = cs\<lparr>cs_running := True,
                       cs_colorDetector := fst (ColorDetector_Start (cs_colorDetector cs)),
                       cs_state := Spinning\<rparr>
         in case ptr_Drive (cs_roomba cs1) (SpinSpeed (cs_config cs1)) (- 1) of
              Inl p \<Rightarrow> Inl p
            | Inr (err, r') \<Rightarrow> Inr (cs1\<lparr>cs_roomba := r'\<rparr>, True)))"

definition ColorSeeker_Stop :: "ColorSeeker \<Rightarrow> go_panic + ColorSeeker" where
  "ColorSeeker_Stop cs =
     (if \<not> cs_running cs then Inr cs
      else if cs_stopChan_closed cs then Inl CloseOfClosedChannel
      else
        (case ColorDetector_Stop (cs_colorDetector cs) of
           Inl p \<Rightarrow> Inl p
         | Inr d \<Rightarrow>
             (let cs1 = cs\<lparr>cs_running := False, cs_stopChan_closed := True,
                            cs_colorDetector := d\<rparr>
              in case cs_roomba cs1 of
                   None \<Rightarrow> Inr (cs1\<lparr>cs_state := Stopped\<rparr>)
                 | Some r \<Rightarrow>
                     (case ptr_Stop (Some r) of
                        Inl p \<Rightarrow> Inl p
                      | Inr (err, r') \<Rightarrow> Inr (cs1\<lparr>cs_roomba := r', cs_state := Stopped\<rparr>)))))"

definition ColorSeeker_Close :: "ColorSeeker \<Rightarrow> go_panic + ColorSeeker" where
  "ColorSeeker_Close cs =
     (case ColorSeeker_Stop cs of
        Inl p \<Rightarrow> Inl p
      | Inr cs' \<Rightarrow>
          (case ColorDetector_Close (cs_colorDetector cs') of
             Inl p \<Rightarrow> Inl p
           | Inr d \<Rightarrow> Inr (cs'\<lparr>cs_colorDetector := d\<rparr>)))"

text \<open>\<open>updateMovement\<close> of package \<open>lib\<close>.\<close>

definition ColorSeeker_updateMovement ::
  "ColorSeeker \<Rightarrow> Time \<Rightarrow> LinePosition \<Rightarrow> go_panic + ColorSeeker" where
  "ColorSeeker_updateMovement cs now position =
     (case position of
        LineNotFound \<Rightarrow>
          if cs_state cs = Following \<or> cs_state cs = Centering then
            if time_Since now (cs_lastColorSeen cs) > LostColorTimeout (cs_config cs) then
              (case ptr_Stop (cs_roomba cs) of
                 Inl p \<Rightarrow> Inl p
               | Inr (err, r') \<Rightarrow> Inr (cs\<lparr>cs_roomba := r', cs_state := Stopped\<rparr>))
            else Inr cs
          else if cs_state cs = Spinning then
            (case ptr_Drive (cs_roomba cs) (SpinSpeed (cs_config cs)) (- 1) of
               Inl p \<Rightarrow> Inl p
             | Inr (err, r') \<Rightarrow> Inr (cs\<lparr>cs_roomba := r'\<rparr>))
          else Inr cs
      | LineCentered \<Rightarrow>
          (let cs1 = cs\<lparr>cs_lastColorSeen := now\<rparr>;
               cs2 = (if cs_state cs1 = Spinning \<or> cs_state cs1 = Centering
                      then cs1\<lparr>cs_state := Following\<rparr> else cs1)
           in case ptr_Drive (cs_roomba cs2) (ForwardSpeed (cs_config cs2)) StraightRadius of
                Inl p \<Rightarrow> Inl p
              | Inr (err, r') \<Rightarrow> Inr (cs2\<lparr>cs_roomba := r'\<rparr>))
      | LineLeft \<Rightarrow>
          (let cs1 = cs\<lparr>cs_lastColorSeen := now\<rparr>;
               cs2 = (if cs_state cs1 = Spinning then cs1\<lparr>cs_state := Centering\<rparr> else cs1)
           in case ptr_Drive (cs_roomba cs2) (AdjustmentSpeed (cs_config cs2)) 1 of
                Inl p \<Rightarrow> Inl p
              | Inr (err, r') \<Rightarrow> Inr (cs2\<lparr>cs_roomba := r'\<rparr>))
      | LineRight \<Rightarrow>
          (let cs1 = cs\<lparr>cs_lastColorSeen := now\<rparr>;
               cs2 = (if cs_state cs1 = Spinning then cs1\<lparr>cs_state := Centering\<rparr> else cs1)
           in case ptr_Drive (cs_roomba cs2) (AdjustmentSpeed (cs_config cs2)) (- 1) of
                Inl p \<Rightarrow> Inl p
              | Inr (err, r') \<Rightarrow> Inr (cs2\<lparr>cs_roomba := r'\<rparr>)))"

text \<open>
  \<open>updateMovement\<close> of package \<open>main\<close>: it reads the state once, collects the new state
  in \<open>newState\<close> (\<open>None\<close> is the empty string) and writes it back at the end when it is
  set and differs.
\<close>

definition write_back :: "ColorSeekState \<Rightarrow> ColorSeekState option \<Rightarrow> ColorSeeker \<Rightarrow> ColorSeeker" where
  "write_back currentState newState cs =
     (case newState of
        None \<Rightarrow> cs
      | Some n \<Rightarrow> if n \<noteq> currentState then cs\<lparr>cs_state := n\<rparr> else cs)"

definition main_updateMovement ::
  "ColorSeeker \<Rightarrow> Time \<Rightarrow> LinePosition \<Rightarrow> go_panic + ColorSeeker" where
  "main_updateMovement cs now position =
     (let currentState = cs_state cs
      in case position of
        LineNotFound \<Rightarrow>
          if currentState = Following \<or> currentState = Centering then
            if time_Since now (cs_lastColorSeen cs) > LostColorTimeout (cs_config cs) then
              (case ptr_Stop (cs_roomba cs) of
                 Inl p \<Rightarrow> Inl p
               | Inr (err, r') \<Rightarrow>
                   Inr (write_back currentState (Some Stopped) (cs\<lparr>cs_roomba := r'\<rparr>)))
            else Inr (write_back currentState (Some currentState) cs)
          else if currentState = Spinning then
            (case ptr_Drive (cs_roomba cs) (SpinSpeed (cs_config cs)) (- 1) of
               Inl p \<Rightarrow> Inl p
             | Inr (err, r') \<Rightarrow>
                 Inr (write_back currentState (Some Spinning) (cs\<lparr>cs_roomba := r'\<rparr>)))
          else Inr (write_back currentState (Some currentState) cs)
      | LineCentered \<Rightarrow>
          (let cs1 = cs\<lparr>cs_lastColorSeen := now\<rparr>;
               newState = (if currentState = Spinning \<or> currentState = Centering
                           then Following else currentState)
           in case ptr_Drive (cs_roomba cs1) (ForwardSpeed (cs_config cs1)) StraightRadius of
                Inl p \<Rightarrow> Inl p
              | Inr (err, r') \<Rightarrow>
                  Inr (write_back currentState (Some newState) (cs1\<lparr>cs_roomba := r'\<rparr>)))
      | LineLeft \<Rightarrow>
          (let cs1 = cs\<lparr>cs_lastColorSeen := now\<rparr>;
               newState = (if currentState = Spinning then Centering else currentState)
           in case ptr_Drive (cs_roomba cs1) (AdjustmentSpeed (cs_config cs1)) 1 of
                Inl p \<Rightarrow> Inl p
              | Inr (err, r') \<Rightarrow>
                  Inr (write_back currentState (Some newState) (cs1\<lparr>cs_roomba := r'\<rparr>)))
      | LineRight \<Rightarrow>
          (let cs1 = cs\<lparr>cs_lastColorSeen := now\<rparr>;
               newState = (if currentState = Spinning then Centering else currentState)
           in case ptr_Drive (cs_roomba cs1) (AdjustmentSpeed (cs_config cs1)) (- 1) of
                Inl p \<Rightarrow> Inl p
              | Inr (err, r') \<Rightarrow>
                  Inr (write_back currentState (Some newState) (cs1\<lparr>cs_roomba := r'\<rparr>))))"

text \<open>
  One pass through the \<open>select\<close> of \<open>controlLoop\<close>: on a tick the loop samples the
  detector's position and calls \<open>updateMovement\<close>.
\<close>

definition ColorSeeker_controlLoop_iteration ::
  "ColorSeeker \<Rightarrow> tick \<Rightarrow> go_panic + ColorSeeker loop_step" where
  "ColorSeeker_controlLoop_iteration cs inp =
     (case select_case_of (cs_stopChan_closed cs) (tick_fired inp) (tick_choice inp) of
        None \<Rightarrow> Inr (Blocks cs)
      | Some Case_stop \<Rightarrow> Inr (Returns cs)
      | Some Case_tick \<Rightarrow>
          (case ColorSeeker_updateMovement cs (tick_now inp)
                  (ColorDetector_GetPosition (cs_colorDetector cs)) of
             Inl p \<Rightarrow> Inl p
           | Inr cs' \<Rightarrow> Inr (Continues cs')))"

definition ColorSeeker_controlLoop ::
  "ColorSeeker \<Rightarrow> tick list \<Rightarrow> go_panic + ColorSeeker loop_step" where
  "ColorSeeker_controlLoop cs inps =
     (case NewTicker (UpdateInterval (cs_config cs)) of
        Inl p \<Rightarrow> Inl p
      | Inr _ \<Rightarrow> run_loop ColorSeeker_controlLoop_iteration cs inps)"

definition seeker_step :: "ColorSeeker \<Rightarrow> controller_event \<Rightarrow> go_panic + ColorSeeker" where
  "seeker_step cs ev =
     (case ev of
        Ctl_Start \<Rightarrow> (case ColorSeeker_Start cs of Inl p \<Rightarrow> Inl p | Inr (cs', _) \<Rightarrow> Inr cs')
      | Ctl_Stop \<Rightarrow> ColorSeeker_Stop cs
      | Ctl_Close \<Rightarrow> ColorSeeker_Close cs
      | Ctl_select inp \<Rightarrow> after_step (ColorSeeker_controlLoop_iteration cs inp))"

text \<open>Successive ticks of the seeker: the clock and the sampled position of each.\<close>

fun seeker_ticks ::
  "(ColorSeeker \<Rightarrow> Time \<Rightarrow> LinePosition \<Rightarrow> go_panic + ColorSeeker) \<Rightarrow>
   ColorSeeker \<Rightarrow> (Time \<times> LinePosition) list \<Rightarrow> go_panic + ColorSeeker" where
  "seeker_ticks update cs [] = Inr cs"
| "seeker_ticks update cs ((now, position) # rest) =
     (case update cs now position of
        Inl p \<Rightarrow> Inl p
      | Inr cs' \<Rightarrow> seeker_ticks update cs' rest)"

section \<open>Color tracker (\<open>lib.ColorTracker\<close>)\<close>

record ColorTrackerConfig =
  MaxRotationSpeed :: int16
  MinRotationSpeed :: int16
  ForwardSpeed_ct :: int16
  UpdateInterval_ct :: Duration
  StopDelay :: Duration
  DetectorConfig_ct :: ColorDetectionConfig

definition DefaultColorTrackerConfig :: ColorTrackerConfig where
  "DefaultColorTrackerConfig =
     \<lparr>MaxRotationSpeed = 80, MinRotationSpeed = 35, ForwardSpeed_ct = 130,
      UpdateInterval_ct = 50 * Millisecond, StopDelay = 300 * Millisecond,
      DetectorConfig_ct = DefaultColorDetectionConfig\<rparr>"

record ColorTracker =
  ct_config :: ColorTrackerConfig
  ct_colorDetector :: ColorDetector
  ct_roomba :: "Roomba option"
  ct_running :: bool
  ct_stopChan_closed :: bool
  ct_colorLastSeen :: Time
  ct_lastPosition :: LinePosition

definition NewColorTracker ::
  "ColorTrackerConfig \<Rightarrow> Roomba option \<Rightarrow> bool \<Rightarrow> open_error + ColorTracker" where
  "NewColorTracker config roomba camera_opens =
     (case NewColorDetector (DetectorConfig_ct config) camera_opens of
        Inl e \<Rightarrow> Inl e
      | Inr detector \<Rightarrow>
          Inr \<lparr>ct_config = config, ct_colorDetector = detector, ct_roomba = roomba,
               ct_running = False, ct_stopChan_closed = False, ct_colorLastSeen = 0,
               ct_lastPosition = LineNotFound\<rparr>)"

definition ColorTracker_Start :: "ColorTracker \<Rightarrow> go_panic + (ColorTracker \<times> bool)" where
  "ColorTracker_Start ct =
     (if ct_running ct then Inr (ct, False)
      else
        (let ct1 = ct\<lparr>ct_running := True,
                       ct_colorDetector := fst (ColorDetector_Start (ct_colorDetector ct))\<rparr>
         in case ptr_Drive (ct_roomba ct1) (MinRotationSpeed (ct_config ct1)) (- 1) of
              Inl p \<Rightarrow> Inl p
            | Inr (err, r') \<Rightarrow> Inr (ct1\<lparr>ct_roomba := r'\<rparr>, True)))"

definition ColorTracker_Stop :: "ColorTracker \<Rightarrow> go_panic + ColorTracker" where
  "ColorTracker_Stop ct =
     (if \<not> ct_running ct then Inr ct
      else if ct_stopChan_closed ct then Inl CloseOfClosedChannel
      else
        (case ColorDetector_Stop (ct_colorDetector ct) of
           Inl p \<Rightarrow> Inl p
         | Inr d \<Rightarrow>
             (let ct1 = ct\<lparr>ct_running := False, ct_stopChan_closed := True,
                            ct_colorDetector := d\<rparr>
              in case ptr_Stop (ct_roomba ct1) of
                   Inl p \<Rightarrow> Inl p
                 | Inr (err, r') \<Rightarrow> Inr (ct1\<lparr>ct_roomba := r'\<rparr>))))"

definition ColorTracker_Close :: "ColorTracker \<Rightarrow> go_panic + ColorTracker" where
  "ColorTracker_Close ct =
     (case ColorTracker_Stop ct of
        Inl p \<Rightarrow> Inl p
      | Inr ct' \<Rightarrow>
          (case ColorDetector_Close (ct_colorDetector ct') of
             Inl p \<Rightarrow> Inl p
           | Inr d \<Rightarrow> Inr (ct'\<lparr>ct_colorDetector := d\<rparr>)))"

text \<open>
  Go's \<open>/\<close> on \<open>int16\<close> truncates towards zero; the only divisor in the program is the
  constant 2.
\<close>

definition div_int16 :: "int16 \<Rightarrow> int16 \<Rightarrow> int16" where
  "div_int16 a b = word_of_int (sint a sdiv sint b)"

text \<open>The rotation speed chosen in the \<open>LineLeft\<close> and \<open>LineRight\<close> cases.\<close>

definition rotationSpeed :: "ColorTracker \<Rightarrow> LinePosition \<Rightarrow> LinePosition \<Rightarrow> int16" where
  "rotationSpeed ct opposite same =
     (if ct_lastPosition ct = opposite then div_int16 (MinRotationSpeed (ct_config ct)) 2
      else if ct_lastPosition ct \<noteq> same then MinRotationSpeed (ct_config ct)
      else MinRotationSpeed (ct_config ct))"

definition ColorTracker_handleColorPosition ::
  "ColorTracker \<Rightarrow> Time \<Rightarrow> LinePosition \<Rightarrow> go_panic + ColorTracker" where
  "ColorTracker_handleColorPosition ct now position =
     (case position of
        LineNotFound \<Rightarrow>
          if \<not> IsZero (ct_colorLastSeen ct)
             \<and> time_Since now (ct_colorLastSeen ct) > StopDelay (ct_config ct) then
            (case ptr_Stop (ct_roomba ct) of
               Inl p \<Rightarrow> Inl p
             | Inr (err, r') \<Rightarrow> Inr (ct\<lparr>ct_roomba := r', ct_colorLastSeen := 0\<rparr>))
          else if IsZero (ct_colorLastSeen ct) then
            (case ptr_Drive (ct_roomba ct) (MinRotationSpeed (ct_config ct)) (- 1) of
               Inl p \<Rightarrow> Inl p
             | Inr (err, r') \<Rightarrow> Inr (ct\<lparr>ct_roomba := r'\<rparr>))
          else Inr ct
      | LineCentered \<Rightarrow>
          (let ct1 = ct\<lparr>ct_colorLastSeen := now\<rparr>
           in case ptr_Drive (ct_roomba ct1) (ForwardSpeed_ct (ct_config ct1)) StraightRadius of
                Inl p \<Rightarrow> Inl p
              | Inr (err, r') \<Rightarrow> Inr (ct1\<lparr>ct_roomba := r', ct_lastPosition := LineCentered\<rparr>))
      | LineLeft \<Rightarrow>
          (let ct1 = ct\<lparr>ct_colorLastSeen := now\<rparr>
           in case ptr_Drive (ct_roomba ct1) (rotationSpeed ct1 LineRight LineLeft) 1 of
                Inl p \<Rightarrow> Inl p
              | Inr (err, r') \<Rightarrow> Inr (ct1\<lparr>ct_roomba := r', ct_lastPosition := LineLeft\<rparr>))
      | LineRight \<Rightarrow>
          (let ct1 = ct\<lparr>ct_colorLastSeen := now\<rparr>
           in case ptr_Drive (ct_roomba ct1) (rotationSpeed ct1 LineLeft LineRight) (- 1) of
                Inl p \<Rightarrow> Inl p
              | Inr (err, r') \<Rightarrow> Inr (ct1\<lparr>ct_roomba := r', ct_lastPosition := LineRight\<rparr>)))"

definition ColorTracker_controlLoop_iteration ::
  "ColorTracker \<Rightarrow> tick \<Rightarrow> go_panic + ColorTracker loop_step" where
  "ColorTracker_controlLoop_iteration ct inp =
     (case select_case_of (ct_stopChan_closed ct) (tick_fired inp) (tick_choice inp) of
        None \<Rightarrow> Inr (Blocks ct)
      | Some Case_stop \<Rightarrow> Inr (Returns ct)
      | Some Case_tick \<Rightarrow>
          (case ColorTracker_handleColorPosition ct (tick_now inp)
                  (ColorDetector_GetPosition (ct_colorDetector ct)) of
             Inl p \<Rightarrow> Inl p
           | Inr ct' \<Rightarrow> Inr (Continues ct')))"

definition ColorTracker_controlLoop ::
  "ColorTracker \<Rightarrow> tick list \<Rightarrow> go_panic + ColorTracker loop_step" where
  "ColorTracker_controlLoop ct inps =
     (case NewTicker (UpdateInterval_ct (ct_config ct)) of
        Inl p \<Rightarrow> Inl p
      | Inr _ \<Rightarrow> run_loop ColorTracker_controlLoop_iteration ct inps)"

definition tracker_step :: "ColorTracker \<Rightarrow> controller_event \<Rightarrow> go_panic + ColorTracker" where
  "tracker_step ct ev =
     (case ev of
        Ctl_Start \<Rightarrow> (case ColorTracker_Start ct of Inl p \<Rightarrow> Inl p | Inr (ct', _) \<Rightarrow> Inr ct')
      | Ctl_Stop \<Rightarrow> ColorTracker_Stop ct
      | Ctl_Close \<Rightarrow> ColorTracker_Close ct
      | Ctl_select inp \<Rightarrow> after_step (ColorTracker_controlLoop_iteration ct inp))"

fun tracker_ticks :: "ColorTracker \<Rightarrow> (Time \<times> LinePosition) list \<Rightarrow> go_panic + ColorTracker" where
  "tracker_ticks ct [] = Inr ct"
| "tracker_ticks ct ((now, position) # rest) =
     (case ColorTracker_handleColorPosition ct now position of
        Inl p \<Rightarrow> Inl p
      | Inr ct' \<Rightarrow> tracker_ticks ct' rest)"

section \<open>Line follower (\<open>lib.LineFollower\<close>)\<close>

datatype Direction = Forward | Left | Right | Stop

record LineFollowerConfig =
  ForwardSpeed_lf :: int16
  TurningSpeed :: int16
  UpdateInterval_lf :: Duration
  DetectorConfig_lf :: ColorDetectionConfig

definition DefaultLineFollowerConfig :: LineFollowerConfig where
  "DefaultLineFollowerConfig =
     \<lparr>ForwardSpeed_lf = 150, TurningSpeed = 100, UpdateInterval_lf = 50 * Millisecond,
      DetectorConfig_lf = DefaultColorDetectionConfig\<rparr>"

record LineFollower =
  lf_config :: LineFollowerConfig
  lf_colorDetector :: ColorDetector
  lf_roomba :: "Roomba option"
  lf_running :: bool
  lf_stopChan_closed :: bool
  lf_direction :: Direction

definition NewLineFollower ::
  "LineFollowerConfig \<Rightarrow> Roomba option \<Rightarrow> bool \<Rightarrow> open_error + LineFollower" where
  "NewLineFollower config roomba camera_opens =
     (case NewColorDetector (DetectorConfig_lf config) camera_opens of
        Inl e \<Rightarrow> Inl e
      | Inr detector \<Rightarrow>
          Inr \<lparr>lf_config = config, lf_colorDetector = detector, lf_roomba = roomba,
               lf_running = False, lf_stopChan_closed = False, lf_direction = Stop\<rparr>)"

definition LineFollower_Start :: "LineFollower \<Rightarrow> LineFollower \<times> bool" where
  "LineFollower_Start lf =
     (if lf_running lf then (lf, False)
      else (lf\<lparr>lf_running := True,
                lf_colorDetector := fst (ColorDetector_Start (lf_colorDetector lf))\<rparr>, True))"

definition LineFollower_Stop :: "LineFollower \<Rightarrow> go_panic + LineFollower" where
  "LineFollower_Stop lf =
     (if \<not> lf_running lf then Inr lf
      else if lf_stopChan_closed lf then Inl CloseOfClosedChannel
      else
        (case ColorDetector_Stop (lf_colorDetector lf) of
           Inl p \<Rightarrow> Inl p
         | Inr d \<Rightarrow>
             (let lf1 = lf\<lparr>lf_running := False, lf_stopChan_closed := True,
                            lf_colorDetector := d\<rparr>
              in case lf_roomba lf1 of
                   None \<Rightarrow> Inr lf1
                 | Some r \<Rightarrow>
                     (case ptr_Stop (Some r) of
                        Inl p \<Rightarrow> Inl p
                      | Inr (err, r') \<Rightarrow> Inr (lf1\<lparr>lf_roomba := r'\<rparr>)))))"

definition LineFollower_Close :: "LineFollower \<Rightarrow> go_panic + LineFollower" where
  "LineFollower_Close lf =
     (case LineFollower_Stop lf of
        Inl p \<Rightarrow> Inl p
      | Inr lf' \<Rightarrow>
          (case ColorDetector_Close (lf_colorDetector lf') of
             Inl p \<Rightarrow> Inl p
           | Inr d \<Rightarrow> Inr (lf'\<lparr>lf_colorDetector := d\<rparr>)))"

definition LineFollower_updateMovement ::
  "LineFollower \<Rightarrow> LinePosition \<Rightarrow> go_panic + LineFollower" where
  "LineFollower_updateMovement lf position =
     (case position of
        LineCentered \<Rightarrow>
          (case ptr_Drive (lf_roomba lf) (ForwardSpeed_lf (lf_config lf)) StraightRadius of
             Inl p \<Rightarrow> Inl p
           | Inr (err, r') \<Rightarrow> Inr (lf\<lparr>lf_roomba := r', lf_direction := Forward\<rparr>))
      | LineLeft \<Rightarrow>
          (case ptr_Drive (lf_roomba lf) (TurningSpeed (lf_config lf)) 1 of
             Inl p \<Rightarrow> Inl p
           | Inr (err, r') \<Rightarrow> Inr (lf\<lparr>lf_roomba := r', lf_direction := Left\<rparr>))
      | LineRight \<Rightarrow>
          (case ptr_Drive (lf_roomba lf) (TurningSpeed (lf_config lf)) (- 1) of
             Inl p \<Rightarrow> Inl p
           | Inr (err, r') \<Rightarrow> Inr (lf\<lparr>lf_roomba := r', lf_direction := Right\<rparr>))
      | LineNotFound \<Rightarrow>
          (case ptr_Stop (lf_roomba lf) of
             Inl p \<Rightarrow> Inl p
           | Inr (err, r') \<Rightarrow> Inr (lf\<lparr>lf_roomba := r', lf_direction := Stop\<rparr>)))"

definition LineFollower_controlLoop_iteration ::
  "LineFollower \<Rightarrow> tick \<Rightarrow> go_panic + LineFollower loop_step" where
  "LineFollower_controlLoop_iteration lf inp =
     (case select_case_of (lf_stopChan_closed lf) (tick_fired inp) (tick_choice inp) of
        None \<Rightarrow> Inr (Blocks lf)
      | Some Case_stop \<Rightarrow> Inr (Returns lf)
      | Some Case_tick \<Rightarrow>
          (case LineFollower_updateMovement lf
                  (ColorDetector_GetPosition (lf_colorDetector lf)) of
             Inl p \<Rightarrow> Inl p
           | Inr lf' \<Rightarrow> Inr (Continues lf')))"

definition LineFollower_controlLoop ::
  "LineFollower \<Rightarrow> tick list \<Rightarrow> go_panic + LineFollower loop_step" where
  "LineFollower_controlLoop lf inps =
     (case NewTicker (UpdateInterval_lf (lf_config lf)) of
        Inl p \<Rightarrow> Inl p
      | Inr _ \<Rightarrow> run_loop LineFollower_controlLoop_iteration lf inps)"

definition follower_step :: "LineFollower \<Rightarrow> controller_event \<Rightarrow> go_panic + LineFollower" where
  "follower_step lf ev =
     (case ev of
        Ctl_Start \<Rightarrow> Inr (fst (LineFollower_Start lf))
      | Ctl_Stop \<Rightarrow> LineFollower_Stop lf
      | Ctl_Close \<Rightarrow> LineFollower_Close lf
      | Ctl_select inp \<Rightarrow> after_step (LineFollower_controlLoop_iteration lf inp))"

fun follower_ticks :: "LineFollower \<Rightarrow> LinePosition list \<Rightarrow> go_panic + LineFollower" where
  "follower_ticks lf [] = Inr lf"
| "follower_ticks lf (position # rest) =
     (case LineFollower_updateMovement lf position of
        Inl p \<Rightarrow> Inl p
      | Inr lf' \<Rightarrow> follower_ticks lf' rest)"


section \<open>The \<open>/seekColor\<close> handlers\<close>

text \<open>
  What a handler reads from a request: whether the method is POST, whether \<open>ParseForm\<close>
  succeeds, and the form value \<open>color\<close>.
\<close>

record http_request =
  req_post :: bool
  req_form_ok :: bool
  req_color :: string

datatype http_reply = MethodNotAllowed | BadRequest | InternalServerError | Reply_ok string

text \<open>
  The web server of package \<open>main\<close> that drives a \<open>ColorSeeker\<close>. Every seeker is given
  the one \<open>*Roomba\<close> of \<open>main\<close>, so the server holds the Roomba and a seeker's own field is
  brought up to date before one of its methods or loop passes runs. \<open>activeSeeker\<close> is the
  global of that name. A seeker that the handler has dropped from it is kept in
  \<open>former_seekers\<close>, because its goroutines still refer to it.
\<close>

record seek_server =
  srv_roomba :: "Roomba option"
  activeSeeker :: "ColorSeeker option"
  former_seekers :: "ColorSeeker list"

definition seekColor_config :: "string \<Rightarrow> ColorSeekConfig" where
  "seekColor_config colorName =
     (let config = DefaultColorSeekConfig;
          range = (if colorName = ''red'' then ((0, 100, 100, 0), (10, 255, 255, 0))
                   else if colorName = ''blue'' then ((100, 100, 100, 0), (130, 255, 255, 0))
                   else if colorName = ''yellow'' then ((20, 100, 100, 0), (30, 255, 255, 0))
                   else ((35, 100, 100, 0), (50, 255, 255, 0)))
      in config\<lparr>DetectorConfig :=
           (DetectorConfig config)\<lparr>LowerHSVBound := fst range, UpperHSVBound := snd range\<rparr>\<rparr>)"

text \<open>
  The first part of the critical section: \<open>Stop\<close> on the active seeker, if there is one,
  and \<open>activeSeeker = nil\<close>. \<open>Stop\<close> returns without waiting for any goroutine.
\<close>

definition stop_activeSeeker :: "seek_server \<Rightarrow> go_panic + seek_server" where
  "stop_activeSeeker srv =
     (case activeSeeker srv of
        None \<Rightarrow> Inr srv
      | Some a \<Rightarrow>
          (case ColorSeeker_Stop (a\<lparr>cs_roomba := srv_roomba srv\<rparr>) of
             Inl p \<Rightarrow> Inl p
           | Inr a' \<Rightarrow>
               Inr (srv\<lparr>srv_roomba := cs_roomba a', activeSeeker := None,
                        former_seekers := former_seekers srv @ [a']\<rparr>)))"

text \<open>
  The handler of \<open>/seekColor\<close> in package \<open>main\<close>, run for one request;
  \<open>camera_opens\<close> tells whether the camera opens for the new seeker.
\<close>

definition seekColor_handler ::
  "seek_server \<Rightarrow> http_request \<Rightarrow> bool \<Rightarrow> go_panic + seek_server \<times> http_reply" where
  "seekColor_handler srv req camera_opens =
     (if \<not> req_post req then Inr (srv, MethodNotAllowed)
      else if \<not> req_form_ok req then Inr (srv, BadRequest)
      else
        (let colorName = (if req_color req = [] then ''green'' else req_color req)
         in case stop_activeSeeker srv of
              Inl p \<Rightarrow> Inl p
            | Inr srv1 \<Rightarrow>
                (case NewColorSeeker (seekColor_config colorName) (srv_roomba srv1)
                        camera_opens of
                   Inl e \<Rightarrow> Inr (srv1, InternalServerError)
                 | Inr seeker \<Rightarrow>
                     (case ColorSeeker_Start seeker of
                        Inl p \<Rightarrow> Inl p
                      | Inr (seeker', launched) \<Rightarrow>
                          Inr (srv1\<lparr>srv_roomba := cs_roomba seeker',
                                    activeSeeker := Some seeker'\<rparr>,
                               Reply_ok (''Seeking '' @ colorName @ '' color''))))))"

text \<open>
  What can happen to that server: a request to \<open>/seekColor\<close>, a pass of the active
  seeker's control loop through its \<open>select\<close>, and such a pass of the loop of a seeker
  dropped earlier.
\<close>

datatype server_event =
    Seek_request http_request bool
  | Active_select tick
  | Former_select nat tick

definition seek_server_step :: "seek_server \<Rightarrow> server_event \<Rightarrow> go_panic + seek_server" where
  "seek_server_step srv ev =
     (case ev of
        Seek_request req camera_opens \<Rightarrow>
          (case seekColor_handler srv req camera_opens of
             Inl p \<Rightarrow> Inl p
           | Inr (srv', reply) \<Rightarrow> Inr srv')
      | Active_select inp \<Rightarrow>
          (case activeSeeker srv of
             None \<Rightarrow> Inr srv
           | Some a \<Rightarrow>
               (case seeker_step (a\<lparr>cs_roomba := srv_roomba srv\<rparr>) (Ctl_select inp) of
                  Inl p \<Rightarrow> Inl p
                | Inr a' \<Rightarrow> Inr (srv\<lparr>srv_roomba := cs_roomba a', activeSeeker := Some a'\<rparr>)))
      | Former_select k inp \<Rightarrow>
          if k < length (former_seekers srv) then
            (case seeker_step ((former_seekers srv ! k)\<lparr>cs_roomba := srv_roomba srv\<rparr>)
                    (Ctl_select inp) of
               Inl p \<Rightarrow> Inl p
             | Inr a' \<Rightarrow>
                 Inr (srv\<lparr>srv_roomba := cs_roomba a',
                          former_seekers := (former_seekers srv)[k := a']\<rparr>))
          else Inr srv)"

text \<open>
  The web server that drives a \<open>lib.ColorTracker\<close>, with its globals \<open>roomba\<close> and
  \<open>activeTracker\<close>, in the same way.
\<close>

record track_server =
  trk_roomba :: "Roomba option"
  activeTracker :: "ColorTracker option"
  former_trackers :: "ColorTracker list"

definition trackColor_config :: "string \<Rightarrow> ColorTrackerConfig" where
  "trackColor_config colorName =
     (let config = DefaultColorTrackerConfig;
          range = (if colorName = ''red'' then ((0, 100, 100, 0), (10, 255, 255, 0))
                   else if colorName = ''blue'' then ((100, 100, 100, 0), (130, 255, 255, 0))
                   else if colorName = ''yellow'' then ((20, 100, 100, 0), (30, 255, 255, 0))
                   else if colorName = ''black'' then ((0, 0, 0, 0), (180, 255, 50, 0))
                   else if colorName = ''lime'' then ((45, 100, 100, 0), (65, 255, 255, 0))
                   else ((35, 100, 100, 0), (50, 255, 255, 0)))
      in config\<lparr>DetectorConfig_ct :=
           (DetectorConfig_ct config)\<lparr>LowerHSVBound := fst range, UpperHSVBound := snd range\<rparr>\<rparr>)"

definition stop_activeTracker :: "track_server \<Rightarrow> go_panic + track_server" where
  "stop_activeTracker srv =
     (case activeTracker srv of
        None \<Rightarrow> Inr srv
      | Some a \<Rightarrow>
          (case ColorTracker_Stop (a\<lparr>ct_roomba := trk_roomba srv\<rparr>) of
             Inl p \<Rightarrow> Inl p
           | Inr a' \<Rightarrow>
               Inr (srv\<lparr>trk_roomba := ct_roomba a', activeTracker := None,
                        former_trackers := former_trackers srv @ [a']\<rparr>)))"

definition trackColor_handler ::
  "track_server \<Rightarrow> http_request \<Rightarrow> bool \<Rightarrow> go_panic + track_server \<times> http_reply" where
  "trackColor_handler srv req camera_opens =
     (if \<not> req_post req then Inr (srv, MethodNotAllowed)
      else if \<not> req_form_ok req then Inr (srv, BadRequest)
      else
        (let colorName = (if req_color req = [] then ''lime'' else req_color req)
         in case stop_activeTracker srv of
              Inl p \<Rightarrow> Inl p
            | Inr srv1 \<Rightarrow>
                (case NewColorTracker (trackColor_config colorName) (trk_roomba srv1)
                        camera_opens of
                   Inl e \<Rightarrow> Inr (srv1, InternalServerError)
                 | Inr tracker \<Rightarrow>
                     (case ColorTracker_Start tracker of
                        Inl p \<Rightarrow> Inl p
                      | Inr (tracker', launched) \<Rightarrow>
                          Inr (srv1\<lparr>trk_roomba := ct_roomba tracker',
                                    activeTracker := Some tracker'\<rparr>,
                               Reply_ok (''Tracking '' @ colorName @ '' color''))))))"

definition track_server_step :: "track_server \<Rightarrow> server_event \<Rightarrow> go_panic + track_server" where
  "track_server_step srv ev =
     (case ev of
        Seek_request req camera_opens \<Rightarrow>
          (case trackColor_handler srv req camera_opens of
             Inl p \<Rightarrow> Inl p
           | Inr (srv', reply) \<Rightarrow> Inr srv')
      | Active_select inp \<Rightarrow>
          (case activeTracker srv of
             None \<Rightarrow> Inr srv
           | Some a \<Rightarrow>
               (case tracker_step (a\<lparr>ct_roomba := trk_roomba srv\<rparr>) (Ctl_select inp) of
                  Inl p \<Rightarrow> Inl p
                | Inr a' \<Rightarrow> Inr (srv\<lparr>trk_roomba := ct_roomba a', activeTracker := Some a'\<rparr>)))
      | Former_select k inp \<Rightarrow>
          if k < length (former_trackers srv) then
            (case tracker_step ((former_trackers srv ! k)\<lparr>ct_roomba := trk_roomba srv\<rparr>)
                    (Ctl_select inp) of
               Inl p \<Rightarrow> Inl p
             | Inr a' \<Rightarrow>
                 Inr (srv\<lparr>trk_roomba := ct_roomba a',
                          former_trackers := (former_trackers srv)[k := a']\<rparr>))
          else Inr srv)"

section \<open>Concrete instances\<close>

text \<open>A detector as \<open>NewColorDetector\<close> returns it for the default configuration.\<close>

definition new_detector :: ColorDetector where
  "new_detector =
     \<lparr>cd_Config = DefaultColorDetectionConfig, cd_webcam_open = True,
      cd_centerRect = \<lparr>Min_X = 0, Min_Y = 0, Max_X = 0, Max_Y = 0\<rparr>,
      cd_position = LineNotFound, cd_lastFrame = None,
      cd_running = False, cd_stopChan_closed = False\<rparr>"

text \<open>A running seeker on a connected Roomba, in a given state.\<close>

definition seeker_in :: "ColorSeekState \<Rightarrow> Time \<Rightarrow> ColorSeeker" where
  "seeker_in st seen =
     \<lparr>cs_config = DefaultColorSeekConfig,
      cs_colorDetector = new_detector\<lparr>cd_running := True\<rparr>,
      cs_roomba = Some connected_Roomba, cs_running = True, cs_stopChan_closed = False,
      cs_state = st, cs_lastColorSeen = seen\<rparr>"

text \<open>
  A running detector with a given centre-width divisor and area threshold, a frame of
  640 by 480 with given contours, and a contour with a given area and bounding box.
\<close>

definition detector_with :: "int \<Rightarrow> real \<Rightarrow> ColorDetector" where
  "detector_with divisor threshold =
     new_detector\<lparr>cd_Config := DefaultColorDetectionConfig
                      \<lparr>CenterWidth := divisor, MinContourArea := threshold\<rparr>,
                  cd_running := True\<rparr>"

definition frame_with :: "contour list \<Rightarrow> frame" where
  "frame_with cs = \<lparr>Cols = 640, Rows = 480, contours = cs\<rparr>"

definition blob :: "real \<Rightarrow> int \<Rightarrow> int \<Rightarrow> int \<Rightarrow> int \<Rightarrow> contour" where
  "blob a x0 y0 x1 y1 = \<lparr>area = a, bounding = Rect x0 y0 x1 y1\<rparr>"


text \<open>A running tracker on a connected Roomba, with a given last position.\<close>

definition tracker_after :: "LinePosition \<Rightarrow> ColorTracker" where
  "tracker_after seen =
     \<lparr>ct_config = DefaultColorTrackerConfig,
      ct_colorDetector = new_detector\<lparr>cd_running := True\<rparr>,
      ct_roomba = Some connected_Roomba, ct_running = True, ct_stopChan_closed = False,
      ct_colorLastSeen = 0, ct_lastPosition = seen\<rparr>"

text \<open>A running line follower on a connected Roomba.\<close>

definition running_follower :: LineFollower where
  "running_follower =
     \<lparr>lf_config = DefaultLineFollowerConfig,
      lf_colorDetector = new_detector\<lparr>cd_running := True\<rparr>,
      lf_roomba = Some connected_Roomba, lf_running = True, lf_stopChan_closed = False,
      lf_direction = Stop\<rparr>"

text \<open>
  A running line follower on a connected Roomba whose detector last published a given
  position; the same follower after \<open>Stop\<close>, and after \<open>Stop\<close> and then \<open>Start\<close>.
\<close>

definition follower_seeing :: "LinePosition \<Rightarrow> LineFollower" where
  "follower_seeing pos =
     running_follower\<lparr>lf_colorDetector :=
       new_detector\<lparr>cd_running := True, cd_position := pos\<rparr>\<rparr>"

definition stopped_roomba :: Roomba where
  "stopped_roomba = connected_Roomba\<lparr>port := Some (fresh_port\<lparr>writes := [[137, 0, 0, 0, 0]]\<rparr>)\<rparr>"

definition stopped_follower :: "LinePosition \<Rightarrow> LineFollower" where
  "stopped_follower pos =
     (follower_seeing pos)
       \<lparr>lf_colorDetector := new_detector\<lparr>cd_running := False, cd_position := pos,
                                          cd_stopChan_closed := True\<rparr>,
        lf_roomba := Some stopped_roomba, lf_running := False, lf_stopChan_closed := True\<rparr>"

definition restarted_follower :: "LinePosition \<Rightarrow> LineFollower" where
  "restarted_follower pos =
     (stopped_follower pos)
       \<lparr>lf_colorDetector := new_detector\<lparr>cd_running := True, cd_position := pos,
                                          cd_stopChan_closed := True\<rparr>,
        lf_running := True\<rparr>"

text \<open>A pass through \<open>select\<close> at which the ticker has fired and the runtime picks it.\<close>

definition tick_picked :: tick where
  "tick_picked = \<lparr>tick_fired = True, tick_choice = Case_tick, tick_now = 20 * Second\<rparr>"

text \<open>A pass through \<open>select\<close> before the ticker has fired.\<close>

definition tick_pending :: tick where
  "tick_pending = \<lparr>tick_fired = False, tick_choice = Case_tick, tick_now = 20 * Second\<rparr>"

text \<open>
  A running seeker and a running tracker on a connected Roomba whose detector last
  published a given position, the server on which such a controller is the active one,
  and a well-formed POST request for a colour.
\<close>

definition seeker_seeing :: "LinePosition \<Rightarrow> ColorSeekState \<Rightarrow> ColorSeeker" where
  "seeker_seeing pos st =
     (seeker_in st 0)\<lparr>cs_colorDetector := new_detector\<lparr>cd_running := True, cd_position := pos\<rparr>\<rparr>"

definition tracker_seeing :: "LinePosition \<Rightarrow> ColorTracker" where
  "tracker_seeing pos =
     (tracker_after LineNotFound)
       \<lparr>ct_colorDetector := new_detector\<lparr>cd_running := True, cd_position := pos\<rparr>\<rparr>"

definition seek_serving :: "ColorSeeker \<Rightarrow> seek_server" where
  "seek_serving a =
     \<lparr>srv_roomba = Some connected_Roomba, activeSeeker = Some a, former_seekers = []\<rparr>"

definition track_serving :: "ColorTracker \<Rightarrow> track_server" where
  "track_serving a =
     \<lparr>trk_roomba = Some connected_Roomba, activeTracker = Some a, former_trackers = []\<rparr>"

definition post_color :: "string \<Rightarrow> http_request" where
  "post_color c = \<lparr>req_post = True, req_form_ok = True, req_color = c\<rparr>"

section \<open>Observations\<close>

text \<open>
  What a test harness reads off the result of running a controller: the state, and the
  buffers handed to the transport; \<open>None\<close> when the run panicked.
\<close>

definition cycle_position :: "go_panic + ColorDetector \<Rightarrow> LinePosition option" where
  "cycle_position res = (case res of Inl _ \<Rightarrow> None | Inr cd \<Rightarrow> Some (cd_position cd))"

definition cycle_zone :: "go_panic + ColorDetector \<Rightarrow> Rectangle option" where
  "cycle_zone res = (case res of Inl _ \<Rightarrow> None | Inr cd \<Rightarrow> Some (cd_centerRect cd))"

text \<open>A loop goroutine run on the object that a sequence of events has left.\<close>

definition then_loop ::
  "go_panic + 's \<Rightarrow> ('s \<Rightarrow> 'i list \<Rightarrow> go_panic + 's loop_step) \<Rightarrow> 'i list \<Rightarrow> go_panic + 's loop_step" where
  "then_loop res loop inps = (case res of Inl p \<Rightarrow> Inl p | Inr s \<Rightarrow> loop s inps)"

definition loop_returned :: "go_panic + 's loop_step \<Rightarrow> bool option" where
  "loop_returned res =
     (case res of
        Inl _ \<Rightarrow> None
      | Inr (Returns _) \<Rightarrow> Some True
      | Inr (Continues _) \<Rightarrow> Some False
      | Inr (Blocks _) \<Rightarrow> Some False)"

definition seeker_state :: "go_panic + ColorSeeker \<Rightarrow> ColorSeekState option" where
  "seeker_state res = (case res of Inl _ \<Rightarrow> None | Inr cs \<Rightarrow> Some (cs_state cs))"

definition seeker_frames :: "go_panic + ColorSeeker \<Rightarrow> byte list list option" where
  "seeker_frames res = (case res of Inl _ \<Rightarrow> None | Inr cs \<Rightarrow> Some (sent (cs_roomba cs)))"

definition tracker_frames :: "go_panic + ColorTracker \<Rightarrow> byte list list option" where
  "tracker_frames res = (case res of Inl _ \<Rightarrow> None | Inr ct \<Rightarrow> Some (sent (ct_roomba ct)))"

definition follower_frames :: "go_panic + LineFollower \<Rightarrow> byte list list option" where
  "follower_frames res = (case res of Inl _ \<Rightarrow> None | Inr lf \<Rightarrow> Some (sent (lf_roomba lf)))"

text \<open>The same for the servers: the buffers handed to the transport of the one Roomba.\<close>

definition seek_server_frames :: "go_panic + seek_server \<Rightarrow> byte list list option" where
  "seek_server_frames res = (case res of Inl _ \<Rightarrow> None | Inr srv \<Rightarrow> Some (sent (srv_roomba srv)))"

definition track_server_frames :: "go_panic + track_server \<Rightarrow> byte list list option" where
  "track_server_frames res = (case res of Inl _ \<Rightarrow> None | Inr srv \<Rightarrow> Some (sent (trk_roomba srv)))"

text \<open>The positions a detector has published and the places of its loop goroutines.\<close>

definition system_position ::
  "go_panic + ColorDetector \<times> loop_place list \<Rightarrow> LinePosition option" where
  "system_position res = (case res of Inl _ \<Rightarrow> None | Inr (cd, loops) \<Rightarrow> Some (cd_position cd))"

definition system_places ::
  "go_panic + ColorDetector \<times> loop_place list \<Rightarrow> loop_place list option" where
  "system_places res = (case res of Inl _ \<Rightarrow> None | Inr (cd, loops) \<Rightarrow> Some loops)"

section \<open>The drive frame\<close>

lemma and_255_take_bit: "(v :: int16) AND 0xFF = take_bit 8 v"
proof -
  have "(0xFF :: int16) = mask 8"
    by (simp add: mask_eq_exp_minus_1)
  then show ?thesis
    by (simp add: take_bit_eq_mask)
qed

lemma high_low_cat:
  "word_cat (ucast (signed_drop_bit 8 v) :: byte) (ucast (v AND 0xFF) :: byte) = (v :: int16)"
  unfolding and_255_take_bit
  by (rule bit_word_eqI) (auto simp add: bit_simps not_less not_le)

lemma big_endian_uint:
  "uint (b1 :: byte) * 256 + uint (b2 :: byte) = uint (word_cat b1 b2 :: int16)"
proof -
  have 1: "uint b1 < 256" "0 \<le> uint b1"
    using uint_bounded [of b1] by simp_all
  have 2: "uint b2 < 256" "0 \<le> uint b2"
    using uint_bounded [of b2] by simp_all
  show ?thesis
    using 1 2
    by (simp add: word_cat_eq uint_word_ariths push_bit_eq_mult unsigned_ucast_eq
        take_bit_eq_mod)
qed

lemma twos_complement_uint: "uint (v :: int16) = sint v mod 65536"
  by (simp add: uint_sint take_bit_eq_mod)

lemma high_low_value:
  "uint (ucast (signed_drop_bit 8 v) :: byte) * 256 + uint (ucast (v AND 0xFF) :: byte)
     = sint (v :: int16) mod 65536"
  by (simp only: big_endian_uint high_low_cat twos_complement_uint)

lemma Roomba_Drive_connected:
  "port r = Some p \<Longrightarrow>
   Roomba_Drive r velocity radius =
     Inr ((if write_fails p (length (writes p)) then Some WriteError else None),
          r\<lparr>port := Some (p\<lparr>writes := writes p @ [Drive_command r velocity radius]\<rparr>)\<rparr>)"
  by (simp add: Roomba_Drive_def port_Write_def)

text \<open>
  C1. On a connected Roomba whose opcode table is the one \<open>NewRoomba\<close> builds,
  \<open>Drive(velocity, radius)\<close> makes one \<open>Write\<close> call with exactly five bytes: 137, then
  two bytes that read big-endian give back \<open>velocity\<close>, then two bytes that give back
  \<open>radius\<close>; as an unsigned number each pair is the signed value modulo \<open>2^16\<close>, its
  two's complement. \<open>Drive(300, 32767)\<close> sends \<open>[137, 0x01, 0x2C, 0x7F, 0xFF]\<close> and a
  velocity of \<open>-300\<close> is sent as \<open>0xFE, 0xD4\<close>.
\<close>

theorem Drive_writes_five_bytes:
  assumes "port r = Some p" and "Cmds r = Cmds (NewRoomba pn br)"
  shows "(\<exists>err b1 b2 b3 b4.
            Roomba_Drive r velocity radius =
              Inr (err, r\<lparr>port := Some (p\<lparr>writes := writes p @ [[137, b1, b2, b3, b4]]\<rparr>)\<rparr>)
          \<and> word_cat b1 b2 = velocity \<and> word_cat b3 b4 = radius
          \<and> uint b1 * 256 + uint b2 = sint velocity mod 65536
          \<and> uint b3 * 256 + uint b4 = sint radius mod 65536)
       \<and> Drive_command r 300 32767 = [137, 0x01, 0x2C, 0x7F, 0xFF]
       \<and> Drive_command r (- 300) radius =
            [137, 0xFE, 0xD4, ucast (signed_drop_bit 8 radius), ucast (radius AND 0xFF)]"
proof -
  have op: "CmdDrive (Cmds r) = 137"
    using assms(2) by (simp add: NewRoomba_def)
  have frame: "Drive_command r velocity radius =
      [137, ucast (signed_drop_bit 8 velocity), ucast (velocity AND 0xFF),
       ucast (signed_drop_bit 8 radius), ucast (radius AND 0xFF)]"
    by (simp add: Drive_command_def op)
  have "\<exists>err b1 b2 b3 b4.
            Roomba_Drive r velocity radius =
              Inr (err, r\<lparr>port := Some (p\<lparr>writes := writes p @ [[137, b1, b2, b3, b4]]\<rparr>)\<rparr>)
          \<and> word_cat b1 b2 = velocity \<and> word_cat b3 b4 = radius
          \<and> uint b1 * 256 + uint b2 = sint velocity mod 65536
          \<and> uint b3 * 256 + uint b4 = sint radius mod 65536"
  proof (intro exI conjI)
    show "Roomba_Drive r velocity radius =
        Inr ((if write_fails p (length (writes p)) then Some WriteError else None),
             r\<lparr>port := Some (p\<lparr>writes := writes p @
               [[137, ucast (signed_drop_bit 8 velocity), ucast (velocity AND 0xFF),
                 ucast (signed_drop_bit 8 radius), ucast (radius AND 0xFF)]]\<rparr>)\<rparr>)"
      using Roomba_Drive_connected [OF assms(1), of velocity radius]
      by (simp only: frame)
  qed (simp_all only: high_low_cat high_low_value)
  moreover have "Drive_command r 300 32767 = [137, 0x01, 0x2C, 0x7F, 0xFF]"
    by (simp add: Drive_command_def op)
  moreover have "Drive_command r (- 300) radius =
            [137, 0xFE, 0xD4, ucast (signed_drop_bit 8 radius), ucast (radius AND 0xFF)]"
    by (simp add: Drive_command_def op)
  ultimately show ?thesis
    by blast
qed

theorem Drive_writes_five_bytes_witness:
  "port connected_Roomba = Some fresh_port
   \<and> Cmds connected_Roomba = Cmds (NewRoomba [] 0)
   \<and> Roomba_Drive connected_Roomba 300 32767 =
       Inr (None, connected_Roomba\<lparr>port :=
              Some (fresh_port\<lparr>writes := [[137, 0x01, 0x2C, 0x7F, 0xFF]]\<rparr>)\<rparr>)
   \<and> Drive_command connected_Roomba (- 300) 1 = [137, 0xFE, 0xD4, 0, 1]"
proof -
  have p: "port connected_Roomba = Some fresh_port"
    by (simp add: connected_Roomba_def)
  have c: "Cmds connected_Roomba = Cmds (NewRoomba [] 0)"
    by (simp add: connected_Roomba_def NewRoomba_def)
  have d: "Roomba_Drive connected_Roomba 300 32767 =
       Inr (None, connected_Roomba\<lparr>port :=
              Some (fresh_port\<lparr>writes := [[137, 0x01, 0x2C, 0x7F, 0xFF]]\<rparr>)\<rparr>)"
    using Drive_writes_five_bytes [OF p c, where velocity = 300 and radius = 32767]
    by (simp add: Roomba_Drive_connected [OF p] fresh_port_def)
  have e: "Drive_command connected_Roomba (- 300) 1 = [137, 0xFE, 0xD4, 0, 1]"
    using Drive_writes_five_bytes [OF p c, where velocity = 300 and radius = 1] by simp
  show ?thesis
    using p c d e by blast
qed

section \<open>The seek controller\<close>

lemma ptr_Stop_Drive: "ptr_Stop rp = ptr_Drive rp 0 0"
  by (cases rp) (simp_all add: ptr_Stop_def ptr_Drive_def Roomba_Stop_def)

lemma ptr_Drive_connected:
  "rp = Some r \<Longrightarrow> port r = Some p \<Longrightarrow>
   ptr_Drive rp v rad =
     Inr ((if write_fails p (length (writes p)) then Some WriteError else None),
          Some (r\<lparr>port := Some (p\<lparr>writes := writes p @ [Drive_command r v rad]\<rparr>)\<rparr>))"
  by (simp add: ptr_Drive_def Roomba_Drive_def port_Write_def)

lemma main_updateMovement_eq:
  "main_updateMovement cs now position = ColorSeeker_updateMovement cs now position"
  by (cases position; cases "cs_state cs")
     (simp_all add: main_updateMovement_def ColorSeeker_updateMovement_def write_back_def
       Let_def split: sum.splits prod.splits)

lemma sent_connected_Roomba: "sent (Some connected_Roomba) = []"
  by (simp add: sent_def connected_Roomba_def fresh_port_def)

text \<open>
  C5. In state SPINNING with the Roomba connected, one tick that samples CENTERED sets the
  state to FOLLOWING, the only state it assigns, and writes one drive frame, that of
  \<open>Drive(ForwardSpeed, StraightRadius)\<close>. Both versions of \<open>updateMovement\<close> agree.
\<close>

theorem seeker_spinning_centered:
  assumes "cs_state cs = Spinning" and "cs_roomba cs = Some r" and "port r = Some p"
  shows "\<exists>cs'. ColorSeeker_updateMovement cs now LineCentered = Inr cs'
          \<and> main_updateMovement cs now LineCentered = Inr cs'
          \<and> cs_state cs' = Following
          \<and> cs_lastColorSeen cs' = now
          \<and> sent (cs_roomba cs') =
              sent (cs_roomba cs) @ [Drive_command r (ForwardSpeed (cs_config cs)) StraightRadius]"
  using assms
  by (simp add: main_updateMovement_eq ColorSeeker_updateMovement_def Let_def
      ptr_Drive_connected [OF refl assms(3)] sent_def)

theorem seeker_spinning_centered_witness:
  "cs_state (seeker_in Spinning 0) = Spinning
   \<and> cs_roomba (seeker_in Spinning 0) = Some connected_Roomba
   \<and> port connected_Roomba = Some fresh_port
   \<and> seeker_state (ColorSeeker_updateMovement (seeker_in Spinning 0) 5 LineCentered)
        = Some Following
   \<and> seeker_state (main_updateMovement (seeker_in Spinning 0) 5 LineCentered)
        = Some Following
   \<and> seeker_frames (ColorSeeker_updateMovement (seeker_in Spinning 0) 5 LineCentered)
        = Some [[137, 0, 150, 0x7F, 0xFF]]"
proof -
  have 1: "cs_state (seeker_in Spinning 0) = Spinning"
    by (simp add: seeker_in_def)
  have 2: "cs_roomba (seeker_in Spinning 0) = Some connected_Roomba"
    by (simp add: seeker_in_def)
  have 3: "port connected_Roomba = Some fresh_port"
    by (simp add: connected_Roomba_def)
  have 4: "sent (Some connected_Roomba) = []"
    by (rule sent_connected_Roomba)
  have 5: "Drive_command connected_Roomba (ForwardSpeed (cs_config (seeker_in Spinning 0)))
             StraightRadius = [137, 0, 150, 0x7F, 0xFF]"
    by (simp add: Drive_command_def seeker_in_def DefaultColorSeekConfig_def StraightRadius_def
        connected_Roomba_def NewRoomba_def)
  obtain cs' where
    "ColorSeeker_updateMovement (seeker_in Spinning 0) 5 LineCentered = Inr cs'"
    "main_updateMovement (seeker_in Spinning 0) 5 LineCentered = Inr cs'"
    "cs_state cs' = Following"
    "sent (cs_roomba cs') = sent (cs_roomba (seeker_in Spinning 0)) @
       [Drive_command connected_Roomba (ForwardSpeed (cs_config (seeker_in Spinning 0)))
          StraightRadius]"
    using seeker_spinning_centered [OF 1 2 3, of 5] by blast
  then show ?thesis
    using 1 2 3 by (simp add: 4 5 seeker_state_def seeker_frames_def)
qed

lemma seeker_ticks_cons:
  "update cs now position = Inr cs' \<Longrightarrow>
   seeker_ticks update cs ((now, position) # rest) = seeker_ticks update cs' rest"
  by simp

lemma seeker_ticks_stopped:
  "cs_state cs = Stopped \<Longrightarrow> \<forall>x\<in>set later. snd x = LineNotFound \<Longrightarrow>
   seeker_ticks ColorSeeker_updateMovement cs later = Inr cs"
  by (induction later) (auto simp add: ColorSeeker_updateMovement_def)

lemma main_update_is_lib: "main_updateMovement = ColorSeeker_updateMovement"
  by (intro ext) (rule main_updateMovement_eq)

text \<open>
  C4 (as amended). In state FOLLOWING or CENTERING with the Roomba connected, a tick that
  samples NOT_FOUND does the following. While the time since the last detection does
  not exceed the loss timeout, the seeker is left exactly as it was: the state is held
  (FOLLOWING stays FOLLOWING, CENTERING stays CENTERING) and no drive command is written.
  Once that time exceeds the timeout, the tick writes the single frame of \<open>Drive(0, 0)\<close>
  and the state becomes STOPPED; any number of further NOT_FOUND ticks leave the seeker
  unchanged, so nothing more is written. Both versions of \<open>updateMovement\<close> agree.
\<close>

theorem seeker_lost_color:
  assumes "cs_state cs = Following \<or> cs_state cs = Centering"
    and "cs_roomba cs = Some r" and "port r = Some p"
  shows "(time_Since now (cs_lastColorSeen cs) \<le> LostColorTimeout (cs_config cs) \<longrightarrow>
            ColorSeeker_updateMovement cs now LineNotFound = Inr cs
          \<and> main_updateMovement cs now LineNotFound = Inr cs)
       \<and> (time_Since now (cs_lastColorSeen cs) > LostColorTimeout (cs_config cs) \<longrightarrow>
            (\<exists>cs'. ColorSeeker_updateMovement cs now LineNotFound = Inr cs'
               \<and> main_updateMovement cs now LineNotFound = Inr cs'
               \<and> cs_state cs' = Stopped
               \<and> sent (cs_roomba cs') = sent (cs_roomba cs) @ [Drive_command r 0 0]
               \<and> (\<forall>later. (\<forall>x\<in>set later. snd x = LineNotFound) \<longrightarrow>
                     seeker_ticks ColorSeeker_updateMovement cs' later = Inr cs'
                   \<and> seeker_ticks main_updateMovement cs' later = Inr cs')))"
proof (intro conjI impI)
  assume "time_Since now (cs_lastColorSeen cs) \<le> LostColorTimeout (cs_config cs)"
  then show "ColorSeeker_updateMovement cs now LineNotFound = Inr cs"
    using assms(1) by (auto simp add: ColorSeeker_updateMovement_def)
  then show "main_updateMovement cs now LineNotFound = Inr cs"
    by (simp add: main_updateMovement_eq)
next
  assume late: "time_Since now (cs_lastColorSeen cs) > LostColorTimeout (cs_config cs)"
  define cs' where "cs' = cs\<lparr>cs_roomba :=
      Some (r\<lparr>port := Some (p\<lparr>writes := writes p @ [Drive_command r 0 0]\<rparr>)\<rparr>),
      cs_state := Stopped\<rparr>"
  have step: "ColorSeeker_updateMovement cs now LineNotFound = Inr cs'"
    using assms late
    by (auto simp add: ColorSeeker_updateMovement_def ptr_Stop_Drive cs'_def
        ptr_Drive_connected [OF refl assms(3)])
  have st: "cs_state cs' = Stopped"
    by (simp add: cs'_def)
  have "sent (cs_roomba cs') = sent (cs_roomba cs) @ [Drive_command r 0 0]"
    using assms(2,3) by (simp add: cs'_def sent_def)
  moreover have "\<forall>later. (\<forall>x\<in>set later. snd x = LineNotFound) \<longrightarrow>
                     seeker_ticks ColorSeeker_updateMovement cs' later = Inr cs'
                   \<and> seeker_ticks main_updateMovement cs' later = Inr cs'"
    using seeker_ticks_stopped [OF st] by (simp add: main_update_is_lib)
  ultimately show "\<exists>cs'. ColorSeeker_updateMovement cs now LineNotFound = Inr cs'
               \<and> main_updateMovement cs now LineNotFound = Inr cs'
               \<and> cs_state cs' = Stopped
               \<and> sent (cs_roomba cs') = sent (cs_roomba cs) @ [Drive_command r 0 0]
               \<and> (\<forall>later. (\<forall>x\<in>set later. snd x = LineNotFound) \<longrightarrow>
                     seeker_ticks ColorSeeker_updateMovement cs' later = Inr cs'
                   \<and> seeker_ticks main_updateMovement cs' later = Inr cs')"
    using step st by (intro exI [of _ cs']) (simp add: main_updateMovement_eq)
qed

text \<open>
  The claim C4 as first stated fails: one second after the last detection, with a timeout
  of two seconds, a NOT_FOUND tick in state FOLLOWING writes no drive frame at all, and in
  state CENTERING the state stays CENTERING.
\<close>

theorem seeker_lost_color_counterexample:
  "time_Since (11 * Second) (cs_lastColorSeen (seeker_in Following (10 * Second)))
     < LostColorTimeout (cs_config (seeker_in Following (10 * Second)))
   \<and> ColorSeeker_updateMovement (seeker_in Following (10 * Second)) (11 * Second) LineNotFound
       = Inr (seeker_in Following (10 * Second))
   \<and> main_updateMovement (seeker_in Following (10 * Second)) (11 * Second) LineNotFound
       = Inr (seeker_in Following (10 * Second))
   \<and> sent (cs_roomba (seeker_in Following (10 * Second))) = []
   \<and> ColorSeeker_updateMovement (seeker_in Centering (10 * Second)) (11 * Second) LineNotFound
       = Inr (seeker_in Centering (10 * Second))
   \<and> cs_state (seeker_in Centering (10 * Second)) \<noteq> Following"
  by (simp add: main_updateMovement_eq ColorSeeker_updateMovement_def seeker_in_def
      time_Since_def time_Sub_def maxDuration_def minDuration_def Second_def
      DefaultColorSeekConfig_def sent_connected_Roomba)

theorem seeker_lost_color_witness:
  "(cs_state (seeker_in Following (10 * Second)) = Following
      \<or> cs_state (seeker_in Following (10 * Second)) = Centering)
   \<and> cs_roomba (seeker_in Following (10 * Second)) = Some connected_Roomba
   \<and> port connected_Roomba = Some fresh_port
   \<and> time_Since (12 * Second) (cs_lastColorSeen (seeker_in Following (10 * Second)))
       \<le> LostColorTimeout (cs_config (seeker_in Following (10 * Second)))
   \<and> ColorSeeker_updateMovement (seeker_in Following (10 * Second)) (12 * Second) LineNotFound
       = Inr (seeker_in Following (10 * Second))
   \<and> time_Since (13 * Second) (cs_lastColorSeen (seeker_in Following (10 * Second)))
       > LostColorTimeout (cs_config (seeker_in Following (10 * Second)))
   \<and> seeker_state
        (seeker_ticks ColorSeeker_updateMovement (seeker_in Following (10 * Second))
           [(13 * Second, LineNotFound), (14 * Second, LineNotFound), (15 * Second, LineNotFound)])
       = Some Stopped
   \<and> seeker_frames
        (seeker_ticks ColorSeeker_updateMovement (seeker_in Following (10 * Second))
           [(13 * Second, LineNotFound), (14 * Second, LineNotFound), (15 * Second, LineNotFound)])
       = Some [[137, 0, 0, 0, 0]]"
proof -
  let ?cs = "seeker_in Following (10 * Second)"
  have 1: "cs_state ?cs = Following \<or> cs_state ?cs = Centering"
    by (simp add: seeker_in_def)
  have 2: "cs_roomba ?cs = Some connected_Roomba"
    by (simp add: seeker_in_def)
  have 3: "port connected_Roomba = Some fresh_port"
    by (simp add: connected_Roomba_def)
  have early: "time_Since (12 * Second) (cs_lastColorSeen ?cs) \<le> LostColorTimeout (cs_config ?cs)"
    by (simp add: seeker_in_def time_Since_def time_Sub_def maxDuration_def minDuration_def
        Second_def DefaultColorSeekConfig_def)
  have late: "time_Since (13 * Second) (cs_lastColorSeen ?cs) > LostColorTimeout (cs_config ?cs)"
    by (simp add: seeker_in_def time_Since_def time_Sub_def maxDuration_def minDuration_def
        Second_def DefaultColorSeekConfig_def)
  have frame: "Drive_command connected_Roomba 0 0 = [137, 0, 0, 0, 0]"
    by (simp add: Drive_command_def connected_Roomba_def NewRoomba_def)
  have held: "ColorSeeker_updateMovement ?cs (12 * Second) LineNotFound = Inr ?cs"
    using seeker_lost_color [OF 1 2 3, of "12 * Second"] early by blast
  obtain cs' where a: "ColorSeeker_updateMovement ?cs (13 * Second) LineNotFound = Inr cs'"
    and b: "cs_state cs' = Stopped"
    and c: "sent (cs_roomba cs') = sent (cs_roomba ?cs) @ [Drive_command connected_Roomba 0 0]"
    and d: "\<forall>later. (\<forall>x\<in>set later. snd x = LineNotFound) \<longrightarrow>
                     seeker_ticks ColorSeeker_updateMovement cs' later = Inr cs'
                   \<and> seeker_ticks main_updateMovement cs' later = Inr cs'"
    using seeker_lost_color [OF 1 2 3, of "13 * Second"] late by blast
  have e: "seeker_ticks ColorSeeker_updateMovement cs'
             [(14 * Second, LineNotFound), (15 * Second, LineNotFound)] = Inr cs'"
    using d [THEN spec, of "[(14 * Second, LineNotFound), (15 * Second, LineNotFound)]"]
    by (simp del: seeker_ticks.simps)
  have run: "seeker_ticks ColorSeeker_updateMovement ?cs
           [(13 * Second, LineNotFound), (14 * Second, LineNotFound), (15 * Second, LineNotFound)]
         = Inr cs'"
    by (simp only: seeker_ticks_cons [of ColorSeeker_updateMovement, OF a] e)
  have f: "sent (cs_roomba cs') = [[137, 0, 0, 0, 0]]"
    using c by (simp add: 2 sent_connected_Roomba frame)
  show ?thesis
    using 1 2 3 early late held
    by (simp only: run) (simp add: b f seeker_state_def seeker_frames_def)
qed

section \<open>The tracker and the line follower\<close>

lemma Drive_command_port [simp]:
  "Drive_command (r\<lparr>port := x\<rparr>) v rad = Drive_command r v rad"
  by (simp add: Drive_command_def)

lemma handle_LineLeft:
  "ct_roomba ct = Some r \<Longrightarrow> port r = Some p \<Longrightarrow>
   ColorTracker_handleColorPosition ct now LineLeft =
     Inr (ct\<lparr>ct_colorLastSeen := now,
             ct_roomba := Some (r\<lparr>port := Some (p\<lparr>writes := writes p @
               [Drive_command r (rotationSpeed ct LineRight LineLeft) 1]\<rparr>)\<rparr>),
             ct_lastPosition := LineLeft\<rparr>)"
  by (simp add: ColorTracker_handleColorPosition_def Let_def rotationSpeed_def
      ptr_Drive_connected [of _ r p])

lemma handle_LineRight:
  "ct_roomba ct = Some r \<Longrightarrow> port r = Some p \<Longrightarrow>
   ColorTracker_handleColorPosition ct now LineRight =
     Inr (ct\<lparr>ct_colorLastSeen := now,
             ct_roomba := Some (r\<lparr>port := Some (p\<lparr>writes := writes p @
               [Drive_command r (rotationSpeed ct LineLeft LineRight) (- 1)]\<rparr>)\<rparr>),
             ct_lastPosition := LineRight\<rparr>)"
  by (simp add: ColorTracker_handleColorPosition_def Let_def rotationSpeed_def
      ptr_Drive_connected [of _ r p])

lemma follower_LineLeft:
  "lf_roomba lf = Some r \<Longrightarrow> port r = Some p \<Longrightarrow>
   LineFollower_updateMovement lf LineLeft =
     Inr (lf\<lparr>lf_roomba := Some (r\<lparr>port := Some (p\<lparr>writes := writes p @
               [Drive_command r (TurningSpeed (lf_config lf)) 1]\<rparr>)\<rparr>),
             lf_direction := Left\<rparr>)"
  by (simp add: LineFollower_updateMovement_def ptr_Drive_connected [of _ r p])

lemma follower_LineRight:
  "lf_roomba lf = Some r \<Longrightarrow> port r = Some p \<Longrightarrow>
   LineFollower_updateMovement lf LineRight =
     Inr (lf\<lparr>lf_roomba := Some (r\<lparr>port := Some (p\<lparr>writes := writes p @
               [Drive_command r (TurningSpeed (lf_config lf)) (- 1)]\<rparr>)\<rparr>),
             lf_direction := Right\<rparr>)"
  by (simp add: LineFollower_updateMovement_def ptr_Drive_connected [of _ r p])

lemma sint_div_int16_2: "sint (div_int16 m 2) = sint m sdiv 2"
proof -
  have b: "- 32768 \<le> sint m" "sint m < 32768"
    using sint_ge [of m] sint_lt [of m] by simp_all
  have "- 32768 \<le> sint m sdiv 2 \<and> sint m sdiv 2 < 32768"
    using b by (auto simp add: signed_divide_int_def sgn_if)
  then show ?thesis
    by (simp add: div_int16_def sint_sbintrunc' signed_take_bit_int_eq_self)
qed

lemma ucast_minus_1: "(ucast (- 1 :: int16) :: byte) = 255"
proof -
  have "(- 1 :: int16) = 65535"
    by simp
  then show ?thesis
    by (simp only:) simp
qed

lemma div_int16_35: "div_int16 35 2 = 17"
  by (simp add: div_int16_def)

lemma div_int16_100: "div_int16 100 2 = 50"
  by (simp add: div_int16_def)

lemma Drive_command_connected:
  "Drive_command connected_Roomba v rad =
     [137, ucast (signed_drop_bit 8 v), ucast (v AND 0xFF),
      ucast (signed_drop_bit 8 rad), ucast (rad AND 0xFF)]"
  by (simp add: Drive_command_def connected_Roomba_def NewRoomba_def)

text \<open>
  C7 (as amended). \<open>ColorTracker\<close> on a connected Roomba: when two consecutive ticks
  sample LEFT then RIGHT, or RIGHT then LEFT, the second turn command carries
  \<open>MinRotationSpeed / 2\<close>, the \<open>int16\<close> quotient truncated towards zero; when they sample
  the same side twice, the second carries the full \<open>MinRotationSpeed\<close>. The first of the
  two carries the full speed unless the last position recorded before it was the opposite
  side, so a first detection turns at full speed. \<open>LineFollower\<close> on a connected Roomba
  has no damping: LEFT then RIGHT, and RIGHT then LEFT, both turn at the full
  \<open>TurningSpeed\<close> on both ticks.
\<close>

theorem tracker_damping:
  assumes "ct_roomba ct = Some r" and "port r = Some p"
    and "lf_roomba lf = Some r'" and "port r' = Some p'"
  shows "tracker_frames (tracker_ticks ct [(t1, LineLeft), (t2, LineRight)])
           = Some (sent (ct_roomba ct) @
               [Drive_command r (if ct_lastPosition ct = LineRight
                                 then div_int16 (MinRotationSpeed (ct_config ct)) 2
                                 else MinRotationSpeed (ct_config ct)) 1,
                Drive_command r (div_int16 (MinRotationSpeed (ct_config ct)) 2) (- 1)])
       \<and> tracker_frames (tracker_ticks ct [(t1, LineRight), (t2, LineLeft)])
           = Some (sent (ct_roomba ct) @
               [Drive_command r (if ct_lastPosition ct = LineLeft
                                 then div_int16 (MinRotationSpeed (ct_config ct)) 2
                                 else MinRotationSpeed (ct_config ct)) (- 1),
                Drive_command r (div_int16 (MinRotationSpeed (ct_config ct)) 2) 1])
       \<and> tracker_frames (tracker_ticks ct [(t1, LineLeft), (t2, LineLeft)])
           = Some (sent (ct_roomba ct) @
               [Drive_command r (if ct_lastPosition ct = LineRight
                                 then div_int16 (MinRotationSpeed (ct_config ct)) 2
                                 else MinRotationSpeed (ct_config ct)) 1,
                Drive_command r (MinRotationSpeed (ct_config ct)) 1])
       \<and> tracker_frames (tracker_ticks ct [(t1, LineRight), (t2, LineRight)])
           = Some (sent (ct_roomba ct) @
               [Drive_command r (if ct_lastPosition ct = LineLeft
                                 then div_int16 (MinRotationSpeed (ct_config ct)) 2
                                 else MinRotationSpeed (ct_config ct)) (- 1),
                Drive_command r (MinRotationSpeed (ct_config ct)) (- 1)])
       \<and> sint (div_int16 (MinRotationSpeed (ct_config ct)) 2)
           = sint (MinRotationSpeed (ct_config ct)) sdiv 2
       \<and> follower_frames (follower_ticks lf [LineLeft, LineRight])
           = Some (sent (lf_roomba lf) @
               [Drive_command r' (TurningSpeed (lf_config lf)) 1,
                Drive_command r' (TurningSpeed (lf_config lf)) (- 1)])
       \<and> follower_frames (follower_ticks lf [LineRight, LineLeft])
           = Some (sent (lf_roomba lf) @
               [Drive_command r' (TurningSpeed (lf_config lf)) (- 1),
                Drive_command r' (TurningSpeed (lf_config lf)) 1])"
proof (intro conjI)
  show "sint (div_int16 (MinRotationSpeed (ct_config ct)) 2)
           = sint (MinRotationSpeed (ct_config ct)) sdiv 2"
    by (rule sint_div_int16_2)
qed (simp_all add: handle_LineLeft handle_LineRight follower_LineLeft follower_LineRight
      assms sent_def rotationSpeed_def tracker_frames_def follower_frames_def)

text \<open>
  The claim C7 as first stated fails on \<open>LineFollower\<close>: with a turning speed of 100,
  LEFT then RIGHT sends a second frame with speed 100, not the frame with speed 50.
\<close>

theorem tracker_damping_counterexample:
  "follower_frames (follower_ticks running_follower [LineLeft, LineRight])
     = Some [[137, 0, 100, 0, 1], [137, 0, 100, 0xFF, 0xFF]]
   \<and> Drive_command connected_Roomba
        (div_int16 (TurningSpeed (lf_config running_follower)) 2) (- 1)
     = [137, 0, 50, 0xFF, 0xFF]"
proof -
  have r: "lf_roomba running_follower = Some connected_Roomba"
    by (simp add: running_follower_def)
  have p: "port connected_Roomba = Some fresh_port"
    by (simp add: connected_Roomba_def)
  have t: "TurningSpeed (lf_config running_follower) = 100"
    by (simp add: running_follower_def DefaultLineFollowerConfig_def)
  show ?thesis
    by (simp add: follower_LineLeft [OF r p] follower_LineRight [of _ _ "fresh_port\<lparr>writes := w\<rparr>" for w] 
        follower_frames_def t div_int16_100 Drive_command_connected sent_def r fresh_port_def
        ucast_minus_1)
qed

theorem tracker_damping_witness:
  "ct_roomba (tracker_after LineNotFound) = Some connected_Roomba
   \<and> port connected_Roomba = Some fresh_port
   \<and> lf_roomba running_follower = Some connected_Roomba
   \<and> tracker_frames (tracker_ticks (tracker_after LineNotFound) [(5, LineLeft), (6, LineRight)])
       = Some [[137, 0, 35, 0, 1], [137, 0, 17, 0xFF, 0xFF]]
   \<and> tracker_frames (tracker_ticks (tracker_after LineNotFound) [(5, LineLeft), (6, LineLeft)])
       = Some [[137, 0, 35, 0, 1], [137, 0, 35, 0, 1]]
   \<and> follower_frames (follower_ticks running_follower [LineRight, LineLeft])
       = Some [[137, 0, 100, 0xFF, 0xFF], [137, 0, 100, 0, 1]]"
proof -
  have r: "ct_roomba (tracker_after LineNotFound) = Some connected_Roomba"
    by (simp add: tracker_after_def)
  have p: "port connected_Roomba = Some fresh_port"
    by (simp add: connected_Roomba_def)
  have f: "lf_roomba running_follower = Some connected_Roomba"
    by (simp add: running_follower_def)
  have m: "MinRotationSpeed (ct_config (tracker_after LineNotFound)) = 35"
    "ct_lastPosition (tracker_after LineNotFound) = LineNotFound"
    by (simp_all add: tracker_after_def DefaultColorTrackerConfig_def)
  have t: "TurningSpeed (lf_config running_follower) = 100"
    by (simp add: running_follower_def DefaultLineFollowerConfig_def)
  show ?thesis
    using tracker_damping [OF r p f p, of 5 6]
    by (simp add: r p f m t div_int16_35 Drive_command_connected sent_connected_Roomba
        ucast_minus_1)
qed

section \<open>The detection cycle\<close>

lemma sdiv_2_nonneg: "0 \<le> w \<Longrightarrow> (w :: int) sdiv 2 = w div 2"
  by (simp add: signed_divide_int_def sgn_if)

lemma abs_sdiv_le: "\<bar>(k :: int) sdiv l\<bar> \<le> \<bar>k\<bar> div \<bar>l\<bar>"
  by (auto simp add: signed_divide_int_def sgn_if abs_mult pos_imp_zdiv_nonneg_iff)

lemma abs_sdiv_le_abs: "l \<noteq> 0 \<Longrightarrow> \<bar>(k :: int) sdiv l\<bar> \<le> \<bar>k\<bar>"
proof -
  assume "l \<noteq> 0"
  then have "1 \<le> \<bar>l\<bar>" by simp
  then have "\<bar>k\<bar> div \<bar>l\<bar> \<le> \<bar>k\<bar>"
    by (metis abs_ge_zero div_by_1 zdiv_mono2 zero_less_one)
  then show ?thesis
    using abs_sdiv_le [of k l] by linarith
qed

lemma half_zone_bound:
  assumes "0 \<le> (w :: int)" and "(d :: int) \<noteq> 0"
  shows "\<bar>(w sdiv d) sdiv 2\<bar> \<le> w div 2"
proof -
  have "\<bar>w sdiv d\<bar> \<le> w"
    using abs_sdiv_le_abs [OF assms(2), of w] assms(1) by simp
  moreover have "\<bar>(w sdiv d) sdiv 2\<bar> \<le> \<bar>w sdiv d\<bar> div 2"
    using abs_sdiv_le [of "w sdiv d" 2] by simp
  ultimately show ?thesis
    by (meson order_trans zdiv_mono1 zero_less_numeral)
qed

lemma detection_cycle_zero:
  "CenterWidth (cd_Config cd) = 0 \<Longrightarrow> detection_cycle cd img = Inl IntegerDivideByZero"
  by (simp add: detection_cycle_def)

lemma detection_cycle_nonzero:
  "CenterWidth (cd_Config cd) \<noteq> 0 \<Longrightarrow>
   detection_cycle cd img =
     Inr (cd\<lparr>cd_centerRect :=
               Rect ((Cols img sdiv 2) - ((Cols img sdiv CenterWidth (cd_Config cd)) sdiv 2)) 0
                    ((Cols img sdiv 2) + ((Cols img sdiv CenterWidth (cd_Config cd)) sdiv 2))
                    (Rows img),
             cd_position :=
               (case find_color (cd_Config cd)
                  (Rect ((Cols img sdiv 2) - ((Cols img sdiv CenterWidth (cd_Config cd)) sdiv 2)) 0
                    ((Cols img sdiv 2) + ((Cols img sdiv CenterWidth (cd_Config cd)) sdiv 2))
                    (Rows img)) (contours img) of
                  Some p \<Rightarrow> p | None \<Rightarrow> LineNotFound),
             cd_lastFrame := Some img\<rparr>)"
  by (simp add: detection_cycle_def Let_def)

text \<open>
  C6. For a frame of positive width and height, a cycle either panics, which happens only
  for a zero divisor, or stores a centre rectangle that is symmetric about the integer
  midpoint \<open>width / 2\<close>, lies inside \<open>[0, width]\<close> horizontally and spans exactly
  \<open>[0, height]\<close> vertically; for a positive divisor it runs from
  \<open>width/2 - (width/divisor)/2\<close> to \<open>width/2 + (width/divisor)/2\<close>. This holds for odd
  widths and odd centre widths, since all divisions are the integer ones of the code.
\<close>

theorem center_zone_symmetric_inside:
  assumes "0 < Cols img" and "0 < Rows img"
  shows "case detection_cycle cd img of
           Inl p \<Rightarrow> CenterWidth (cd_Config cd) = 0
         | Inr cd' \<Rightarrow>
             Max_X (cd_centerRect cd') - Cols img div 2 = Cols img div 2 - Min_X (cd_centerRect cd')
           \<and> 0 \<le> Min_X (cd_centerRect cd')
           \<and> Min_X (cd_centerRect cd') \<le> Max_X (cd_centerRect cd')
           \<and> Max_X (cd_centerRect cd') \<le> Cols img
           \<and> Min_Y (cd_centerRect cd') = 0
           \<and> Max_Y (cd_centerRect cd') = Rows img
           \<and> (0 < CenterWidth (cd_Config cd) \<longrightarrow>
                Min_X (cd_centerRect cd')
                  = Cols img div 2 - (Cols img div CenterWidth (cd_Config cd)) div 2
              \<and> Max_X (cd_centerRect cd')
                  = Cols img div 2 + (Cols img div CenterWidth (cd_Config cd)) div 2)"
proof (cases "CenterWidth (cd_Config cd) = 0")
  case True
  then show ?thesis
    by (simp add: detection_cycle_zero)
next
  case False
  define h where "h = (Cols img sdiv CenterWidth (cd_Config cd)) sdiv 2"
  have m: "Cols img sdiv 2 = Cols img div 2"
    using assms(1) by (simp add: sdiv_2_nonneg)
  have hb: "\<bar>h\<bar> \<le> Cols img div 2"
    unfolding h_def using half_zone_bound [OF _ False, of "Cols img"] assms(1) by simp
  have w: "2 * (Cols img div 2) \<le> Cols img"
    by presburger
  have pos: "0 < CenterWidth (cd_Config cd) \<Longrightarrow>
      h = (Cols img div CenterWidth (cd_Config cd)) div 2 \<and> 0 \<le> h"
    using assms(1) unfolding h_def
    by (simp add: signed_divide_int_def sgn_if pos_imp_zdiv_nonneg_iff)
  show ?thesis
    using hb w assms(2) pos
    by (simp add: detection_cycle_nonzero [OF False] m Rect_def flip: h_def) linarith
qed

lemma largest_contour_spec:
  "largest_contour cs i m idx = (m', idx') \<Longrightarrow>
     m \<le> m' \<and> (\<forall>c\<in>set cs. area c \<le> m') \<and>
     ((m' = m \<and> idx' = idx) \<or>
      (m < m' \<and> i \<le> idx' \<and> nat (idx' - i) < length cs
        \<and> area (cs ! nat (idx' - i)) = m'
        \<and> (\<forall>j < nat (idx' - i). area (cs ! j) < m')))"
proof (induction cs arbitrary: i m idx)
  case Nil
  then show ?case by simp
next
  case (Cons c cs)
  show ?case
  proof (cases "area c > m")
    case True
    then have rec: "largest_contour cs (i + 1) (area c) i = (m', idx')"
      using Cons.prems by simp
    from Cons.IH [OF rec] show ?thesis
    proof (elim conjE disjE)
      assume "m' = area c" "idx' = i" "\<forall>c\<in>set cs. area c \<le> m'"
      then show ?thesis using True by simp
    next
      assume a: "area c \<le> m'" "\<forall>c\<in>set cs. area c \<le> m'" "area c < m'" "i + 1 \<le> idx'"
        "nat (idx' - (i + 1)) < length cs" "area (cs ! nat (idx' - (i + 1))) = m'"
        "\<forall>j<nat (idx' - (i + 1)). area (cs ! j) < m'"
      have k: "nat (idx' - i) = Suc (nat (idx' - (i + 1)))"
        using a(4) by simp
      have "\<forall>j < Suc (nat (idx' - (i + 1))). area ((c # cs) ! j) < m'"
        using a(3,7) by (auto simp add: less_Suc_eq_0_disj)
      then show ?thesis
        using a True by (simp add: k)
    qed
  next
    case False
    then have rec: "largest_contour cs (i + 1) m idx = (m', idx')"
      using Cons.prems by simp
    from Cons.IH [OF rec] show ?thesis
    proof (elim conjE disjE)
      assume "m' = m" "idx' = idx" "\<forall>c\<in>set cs. area c \<le> m'"
      then show ?thesis using False by simp
    next
      assume a: "m \<le> m'" "\<forall>c\<in>set cs. area c \<le> m'" "m < m'" "i + 1 \<le> idx'"
        "nat (idx' - (i + 1)) < length cs" "area (cs ! nat (idx' - (i + 1))) = m'"
        "\<forall>j<nat (idx' - (i + 1)). area (cs ! j) < m'"
      have k: "nat (idx' - i) = Suc (nat (idx' - (i + 1)))"
        using a(4) by simp
      have "\<forall>j < Suc (nat (idx' - (i + 1))). area ((c # cs) ! j) < m'"
        using a(3,7) False by (auto simp add: less_Suc_eq_0_disj)
      then show ?thesis
        using a False by (simp add: k)
    qed
  qed
qed

lemma find_color_small:
  assumes "\<forall>c\<in>set cs. area c \<le> MinContourArea config"
  shows "find_color config zone cs = None"
proof (cases "largest_contour cs 0 0 (- 1)")
  case (Pair m' idx')
  from largest_contour_spec [OF Pair] have
    "(m' = 0 \<and> idx' = - 1) \<or> (nat idx' < length cs \<and> area (cs ! nat idx') = m')"
    by auto
  then have neg: "(m' > MinContourArea config \<and> idx' \<ge> 0) = False"
    using assms by (auto simp add: not_less dest: nth_mem)
  show ?thesis
    unfolding find_color_def Pair by (simp only: prod.case neg if_False if_cancel)
qed


text \<open>
  C3. For a frame with no contour, or whose contours all have an area that is at most the
  configured minimum area, a cycle that completes publishes NOT_FOUND, and a cycle fails
  to complete only for a zero divisor. An area equal to the threshold is among the cases.
\<close>

theorem small_contours_not_found:
  assumes "contours img = [] \<or> (\<forall>c\<in>set (contours img). area c \<le> MinContourArea (cd_Config cd))"
  shows "case detection_cycle cd img of
           Inl p \<Rightarrow> CenterWidth (cd_Config cd) = 0
         | Inr cd' \<Rightarrow> cd_position cd' = LineNotFound"
proof (cases "CenterWidth (cd_Config cd) = 0")
  case True
  then show ?thesis
    by (simp add: detection_cycle_zero)
next
  case False
  have "\<forall>c\<in>set (contours img). area c \<le> MinContourArea (cd_Config cd)"
    using assms by auto
  then show ?thesis
    by (simp add: detection_cycle_nonzero [OF False] find_color_small)
qed


lemma failed_reads_skip:
  "\<not> cd_stopChan_closed cd \<Longrightarrow>
   run_loop detectionLoop_iteration cd (replicate n None @ rds)
     = run_loop detectionLoop_iteration cd rds"
  by (induction n) (simp_all add: detectionLoop_iteration_def)

text \<open>
  C10 (as amended). The cycle divides the frame width by \<open>CenterWidth\<close> without a guard.
  It completes for every non-zero divisor, negative ones included, and panics with a
  division by zero for the divisor 0. A running loop whose detector has the divisor 0
  panics at the first frame that is read, after any number of failed reads; so does the
  loop started on a detector that was constructed with the divisor 0.
\<close>

theorem zero_divisor_panics:
  "(CenterWidth (cd_Config cd) \<noteq> 0 \<longrightarrow> (\<exists>cd'. detection_cycle cd img = Inr cd'))
   \<and> (CenterWidth (cd_Config cd) = 0 \<longrightarrow>
        detection_cycle cd img = Inl IntegerDivideByZero
      \<and> (\<not> cd_stopChan_closed cd \<longrightarrow>
           detectionLoop cd (replicate n None @ Some img # rest) = Inl IntegerDivideByZero))
   \<and> (CenterWidth config = 0 \<longrightarrow>
        (\<exists>cd0. NewColorDetector config True = Inr cd0
           \<and> detectionLoop (fst (ColorDetector_Start cd0)) (replicate n None @ Some img # rest)
               = Inl IntegerDivideByZero))"
proof (intro conjI impI)
  assume "CenterWidth (cd_Config cd) \<noteq> 0"
  then show "\<exists>cd'. detection_cycle cd img = Inr cd'"
    by (simp add: detection_cycle_nonzero)
next
  assume "CenterWidth (cd_Config cd) = 0"
  then show "detection_cycle cd img = Inl IntegerDivideByZero"
    by (rule detection_cycle_zero)
next
  assume z: "CenterWidth (cd_Config cd) = 0" and o: "\<not> cd_stopChan_closed cd"
  show "detectionLoop cd (replicate n None @ Some img # rest) = Inl IntegerDivideByZero"
    using o
    by (simp add: detectionLoop_def failed_reads_skip detectionLoop_iteration_def
        detection_cycle_zero [OF z])
next
  assume z: "CenterWidth config = 0"
  define cd0 where "cd0 = \<lparr>cd_Config = config, cd_webcam_open = True,
                cd_centerRect = \<lparr>Min_X = 0, Min_Y = 0, Max_X = 0, Max_Y = 0\<rparr>,
                cd_position = LineNotFound, cd_lastFrame = None,
                cd_running = False, cd_stopChan_closed = False\<rparr>"
  have new: "NewColorDetector config True = Inr cd0"
    by (simp add: NewColorDetector_def cd0_def)
  have started: "fst (ColorDetector_Start cd0) = cd0\<lparr>cd_running := True\<rparr>"
    by (simp add: ColorDetector_Start_def cd0_def)
  have o: "\<not> cd_stopChan_closed (cd0\<lparr>cd_running := True\<rparr>)"
    by (simp add: cd0_def)
  have z': "CenterWidth (cd_Config (cd0\<lparr>cd_running := True\<rparr>)) = 0"
    using z by (simp add: cd0_def)
  have "detectionLoop (cd0\<lparr>cd_running := True\<rparr>) (replicate n None @ Some img # rest)
               = Inl IntegerDivideByZero"
    using o
    by (simp add: detectionLoop_def failed_reads_skip detectionLoop_iteration_def
        detection_cycle_zero [OF z'])
  then show "\<exists>cd0. NewColorDetector config True = Inr cd0
           \<and> detectionLoop (fst (ColorDetector_Start cd0)) (replicate n None @ Some img # rest)
               = Inl IntegerDivideByZero"
    using new started by simp
qed

lemma sdiv_examples:
  "(640 :: int) sdiv 12 = 53" "(53 :: int) sdiv 2 = 26" "(640 :: int) sdiv 2 = 320"
  "(640 :: int) sdiv - 3 = - 213" "(- 213 :: int) sdiv 2 = - 106"
  "(641 :: int) sdiv 12 = 53" "(641 :: int) sdiv 2 = 320"
  by (simp_all add: signed_divide_int_def)

lemma detector_with_simps:
  "cd_Config (detector_with d t)
     = DefaultColorDetectionConfig\<lparr>CenterWidth := d, MinContourArea := t\<rparr>"
  "CenterWidth (cd_Config (detector_with d t)) = d"
  "MinContourArea (cd_Config (detector_with d t)) = t"
  "cd_stopChan_closed (detector_with d t) = False"
  by (simp_all add: detector_with_def new_detector_def)

text \<open>
  The claim C10 as first stated makes \<open>CenterWidth \<ge> 1\<close> necessary for a cycle to
  complete. With the divisor \<open>-3\<close> the cycle completes, and the centre zone of a frame of
  width 640 runs from 214 to 426.
\<close>

theorem zero_divisor_panics_counterexample:
  "\<not> 1 \<le> CenterWidth (cd_Config (detector_with (- 3) 300))
   \<and> cycle_zone (detection_cycle (detector_with (- 3) 300) (frame_with []))
       = Some (Rect 214 0 426 480)
   \<and> cycle_position (detection_cycle (detector_with (- 3) 300) (frame_with []))
       = Some LineNotFound"
  by (simp add: detector_with_simps detection_cycle_def frame_with_def Let_def sdiv_examples
      cycle_zone_def cycle_position_def find_color_def Rect_def)

theorem zero_divisor_panics_witness:
  "CenterWidth (cd_Config (detector_with 12 300)) \<noteq> 0
   \<and> cycle_position (detection_cycle (detector_with 12 300) (frame_with []))
       = Some LineNotFound
   \<and> CenterWidth (cd_Config (detector_with 0 300)) = 0
   \<and> \<not> cd_stopChan_closed (detector_with 0 300)
   \<and> detectionLoop (detector_with 0 300) [None, None, Some (frame_with [])]
       = Inl IntegerDivideByZero
   \<and> CenterWidth (DefaultColorDetectionConfig\<lparr>CenterWidth := 0\<rparr>) = 0"
proof -
  have a: "CenterWidth (cd_Config (detector_with 12 300)) \<noteq> 0"
    "CenterWidth (cd_Config (detector_with 0 300)) = 0"
    "\<not> cd_stopChan_closed (detector_with 0 300)"
    "CenterWidth (DefaultColorDetectionConfig\<lparr>CenterWidth := 0\<rparr>) = 0"
    by (simp_all add: detector_with_simps)
  have b: "cycle_position (detection_cycle (detector_with 12 300) (frame_with []))
       = Some LineNotFound"
    by (simp add: detector_with_simps detection_cycle_def frame_with_def Let_def
        cycle_position_def find_color_def)
  have r: "replicate 2 None @ Some (frame_with []) # [] = [None, None, Some (frame_with [])]"
    by (simp add: numeral_2_eq_2)
  have "detectionLoop (detector_with 0 300) (replicate 2 None @ Some (frame_with []) # [])
       = Inl IntegerDivideByZero"
    using zero_divisor_panics [of "detector_with 0 300" "frame_with []" 2 "[]"
        "DefaultColorDetectionConfig\<lparr>CenterWidth := 0\<rparr>"] a
    by blast
  then show ?thesis
    using a b by (simp only: r) simp
qed

theorem center_zone_symmetric_inside_witness:
  "0 < Cols \<lparr>Cols = 641, Rows = 481, contours = []\<rparr>
   \<and> 0 < Rows \<lparr>Cols = 641, Rows = 481, contours = []\<rparr>
   \<and> 0 < CenterWidth (cd_Config (detector_with 12 300))
   \<and> cycle_zone (detection_cycle (detector_with 12 300) \<lparr>Cols = 641, Rows = 481, contours = []\<rparr>)
       = Some \<lparr>Min_X = 294, Min_Y = 0, Max_X = 346, Max_Y = 481\<rparr>
   \<and> (346 :: int) - 641 div 2 = 641 div 2 - 294"
proof -
  let ?img = "\<lparr>Cols = 641, Rows = 481, contours = []\<rparr>"
  have 1: "0 < Cols ?img" and 2: "0 < Rows ?img"
    by simp_all
  have 3: "0 < CenterWidth (cd_Config (detector_with 12 300))"
    by (simp add: detector_with_simps)
  have ne: "CenterWidth (cd_Config (detector_with 12 300)) \<noteq> 0"
    by (simp add: detector_with_simps)
  obtain cd' where run: "detection_cycle (detector_with 12 300) ?img = Inr cd'"
    by (auto simp add: detection_cycle_nonzero [OF ne])
  have "Min_X (cd_centerRect cd') = 294 \<and> Max_X (cd_centerRect cd') = 346
      \<and> Min_Y (cd_centerRect cd') = 0 \<and> Max_Y (cd_centerRect cd') = 481"
    using center_zone_symmetric_inside [OF 1 2, of "detector_with 12 300"] 3
    by (simp add: run detector_with_simps)
  then have "cd_centerRect cd' = \<lparr>Min_X = 294, Min_Y = 0, Max_X = 346, Max_Y = 481\<rparr>"
    by (cases "cd_centerRect cd'") simp
  then show ?thesis
    using 1 2 3 by (simp add: run cycle_zone_def)
qed

theorem small_contours_not_found_witness:
  "list_all (\<lambda>c. area c \<le> MinContourArea (cd_Config (detector_with 12 300)))
     (contours (frame_with [blob 300 300 200 340 240]))
   \<and> area (blob 300 300 200 340 240) = MinContourArea (cd_Config (detector_with 12 300))
   \<and> cycle_position (detection_cycle (detector_with 12 300) (frame_with [blob 300 300 200 340 240]))
       = Some LineNotFound
   \<and> contours (frame_with []) = []
   \<and> cycle_position (detection_cycle (detector_with 12 300) (frame_with []))
       = Some LineNotFound"
proof -
  let ?img = "frame_with [blob 300 300 200 340 240]"
  have h: "contours ?img = []
      \<or> (\<forall>c\<in>set (contours ?img). area c \<le> MinContourArea (cd_Config (detector_with 12 300)))"
    by (simp add: frame_with_def blob_def detector_with_simps)
  have e: "contours (frame_with []) = []"
    by (simp add: frame_with_def)
  have ne: "CenterWidth (cd_Config (detector_with 12 300)) \<noteq> 0"
    by (simp add: detector_with_simps)
  obtain cd1 where r1: "detection_cycle (detector_with 12 300) ?img = Inr cd1"
    by (auto simp add: detection_cycle_nonzero [OF ne])
  obtain cd2 where r2: "detection_cycle (detector_with 12 300) (frame_with []) = Inr cd2"
    by (auto simp add: detection_cycle_nonzero [OF ne])
  have p1: "cd_position cd1 = LineNotFound"
    using small_contours_not_found [OF h] by (simp add: r1)
  have p2: "cd_position cd2 = LineNotFound"
    using small_contours_not_found [of "frame_with []" "detector_with 12 300"] e
    by (simp add: r2)
  have all: "list_all (\<lambda>c. area c \<le> MinContourArea (cd_Config (detector_with 12 300)))
     (contours ?img)"
    by (simp add: frame_with_def blob_def detector_with_simps)
  have edge: "area (blob 300 300 200 340 240) = MinContourArea (cd_Config (detector_with 12 300))"
    by (simp add: blob_def detector_with_simps)
  show ?thesis
    using all edge e by (simp add: r1 r2 p1 p2 cycle_position_def)
qed



end
